theory Spec2Isabelle
  imports Complex_Main
begin

section \<open>Python strings\<close>

text \<open>
  A Python \<open>str\<close> is a sequence of Unicode code points; it is modelled as a list of
  natural numbers, one per code point. \<open>str\<close> turns an ASCII literal into such a list.
  The built-in methods the program calls are written out below.

  \<open>py_lower\<close> is \<open>str.lower()\<close> on strings of ASCII characters: it maps the capitals
  A to Z to their small letters and leaves every other code point as it is. CPython also
  maps the cased letters outside ASCII, so on a string with such a letter \<open>py_lower\<close>
  is not \<open>str.lower()\<close>; \<open>is_ascii\<close> names the strings on which the two agree, and
  a statement about the text a lower-cased string becomes is made for those.

  Elsewhere the program only asks whether a lower-cased string contains one of a few ASCII
  keywords. The answer is the same under \<open>str.lower()\<close>: the only code points outside
  ASCII whose lower case holds an ASCII letter are U+212A, which becomes \<open>k\<close>, and
  U+0130, which becomes \<open>i\<close> followed by U+0307, and none of the keywords has a \<open>k\<close>
  or ends in \<open>i\<close>.
\<close>

type_synonym pystr = "nat list"

definition str :: "string \<Rightarrow> pystr" where
  "str s = map of_char s"

text \<open>\<open>s.startswith(p)\<close>\<close>

fun py_startswith :: "pystr \<Rightarrow> pystr \<Rightarrow> bool" where
  "py_startswith s [] = True"
| "py_startswith [] (p # ps) = False"
| "py_startswith (c # s) (p # ps) = (c = p \<and> py_startswith s ps)"

text \<open>\<open>w in s\<close>: \<open>w\<close> occurs in \<open>s\<close> as a contiguous substring.\<close>

fun py_in :: "pystr \<Rightarrow> pystr \<Rightarrow> bool" where
  "py_in w [] = (w = [])"
| "py_in w (c # s) = (py_startswith (c # s) w \<or> py_in w s)"

text \<open>
  \<open>s.replace(old, new)\<close>: a scan from the left that replaces each occurrence of
  \<open>old\<close> and continues behind it, so the replaced occurrences do not overlap and the
  text produced is not scanned again. With an empty \<open>old\<close> Python puts \<open>new\<close>
  before every character and at the end.
\<close>

function py_replace :: "pystr \<Rightarrow> pystr \<Rightarrow> pystr \<Rightarrow> pystr" where
  "py_replace s old new =
     (if old = [] then new @ concat (map (\<lambda>c. c # new) s)
      else if s = [] then []
      else if py_startswith s old then new @ py_replace (drop (length old) s) old new
      else hd s # py_replace (tl s) old new)"
  by pat_completeness auto
termination
  by (relation "measure (\<lambda>(s, old, new). length s)") auto

declare py_replace.simps [simp del]

definition lower_char :: "nat \<Rightarrow> nat" where
  "lower_char c = (if 65 \<le> c \<and> c \<le> 90 then c + 32 else c)"

definition py_lower :: "pystr \<Rightarrow> pystr" where
  "py_lower s = map lower_char s"

text \<open>The code points \<open>str.strip()\<close> and \<open>str.isspace()\<close> take as white space.\<close>

definition isspace :: "nat \<Rightarrow> bool" where
  "isspace c = ((9 \<le> c \<and> c \<le> 13) \<or> (28 \<le> c \<and> c \<le> 32) \<or> c = 133 \<or> c = 160
      \<or> c = 5760 \<or> (8192 \<le> c \<and> c \<le> 8202) \<or> c = 8232 \<or> c = 8233
      \<or> c = 8239 \<or> c = 8287 \<or> c = 12288)"

definition py_strip :: "pystr \<Rightarrow> pystr" where
  "py_strip s = rev (dropWhile isspace (rev (dropWhile isspace s)))"

section \<open>SimpleChatbot: sanitizer and augmentation trigger\<close>

text \<open>\<open>SimpleChatbot.clean_text\<close> on a string argument.\<close>

definition clean_text :: "pystr \<Rightarrow> pystr" where
  "clean_text text =
     (if text = [] then []
      else (let cleaned = py_replace text [0xFFFD] []
            in filter (\<lambda>char. char < 0x10000) cleaned))"

definition search_indicators :: "pystr list" where
  "search_indicators = map str
     [''latest'', ''current'', ''recent'', ''today'', ''news'', ''courses at'',
      ''programs at'', ''what are the'', ''list'', ''find'', ''search'',
      ''website'', ''url'', ''information about'', ''details about'',
      ''time'', ''date'', ''now'', ''right now'', ''currently'',
      ''what is the date'', ''what is the time'', ''what time is it'']"

definition time_date_keywords :: "pystr list" where
  "time_date_keywords = map str
     [''time'', ''date'', ''today'', ''now'', ''right now'', ''currently'', ''what time'']"

definition institution_terms :: "pystr list" where
  "institution_terms = map str
     [''university'', ''college'', ''school'', ''courses'', ''programs'']"

text \<open>\<open>SimpleChatbot.should_search_web\<close>\<close>

definition should_search_web :: "pystr \<Rightarrow> bool" where
  "should_search_web query =
     (let query_lower = py_lower query in
      if list_ex (\<lambda>keyword. py_in keyword query_lower) time_date_keywords then True
      else if list_ex (\<lambda>term. py_in term query_lower) institution_terms then True
      else list_ex (\<lambda>indicator. py_in indicator query_lower) search_indicators)"

definition question_words :: "pystr list" where
  "question_words = map str
     [''what are'', ''tell me'', ''show me'', ''can you'', ''please'', ''find'',
      ''what is'', ''what's'']"

text \<open>
  \<open>SimpleChatbot.extract_search_query\<close>. The loop lower-cases the running string
  before each replacement and starts from the query as the user wrote it.
\<close>

definition extract_search_query :: "pystr \<Rightarrow> pystr" where
  "extract_search_query user_query =
     (let query_lower = py_lower user_query in
      if py_in (str ''time'') query_lower \<and> py_in (str ''india'') query_lower
        then str ''current time in India IST''
      else if py_in (str ''date'') query_lower \<and> py_in (str ''india'') query_lower
        then str ''current date in India''
      else if py_in (str ''time'') query_lower \<or> py_in (str ''date'') query_lower
        then str ''current time and date''
      else py_strip (foldl (\<lambda>search_query word. py_replace (py_lower search_query) word [])
                       user_query question_words))"




section \<open>More of Python: slices, lines, splitting, joining, exceptions\<close>

text \<open>\<open>xs[:n]\<close> and \<open>xs[n:]\<close>; a negative \<open>n\<close> counts from the end.\<close>

definition py_slice_to :: "'a list \<Rightarrow> int \<Rightarrow> 'a list" where
  "py_slice_to xs n =
     (if 0 \<le> n then take (nat n) xs else take (length xs - nat (- n)) xs)"

definition py_slice_from :: "'a list \<Rightarrow> int \<Rightarrow> 'a list" where
  "py_slice_from xs n =
     (if 0 \<le> n then drop (nat n) xs else drop (length xs - nat (- n)) xs)"

text \<open>The line boundaries of \<open>str.splitlines()\<close>; CR LF counts as one.\<close>

definition is_linebreak :: "nat \<Rightarrow> bool" where
  "is_linebreak c = ((10 \<le> c \<and> c \<le> 13) \<or> (28 \<le> c \<and> c \<le> 30) \<or> c = 133
      \<or> c = 8232 \<or> c = 8233)"

fun splitlines_from :: "pystr \<Rightarrow> pystr \<Rightarrow> pystr list" where
  "splitlines_from cur [] = (if cur = [] then [] else [rev cur])"
| "splitlines_from cur [c] = (if is_linebreak c then [rev cur] else [rev (c # cur)])"
| "splitlines_from cur (c # d # s) =
     (if c = 13 \<and> d = 10 then rev cur # splitlines_from [] s
      else if is_linebreak c then rev cur # splitlines_from [] (d # s)
      else splitlines_from (c # cur) (d # s))"

definition py_splitlines :: "pystr \<Rightarrow> pystr list" where
  "py_splitlines s = splitlines_from [] s"

text \<open>
  \<open>s.split(sep)\<close> for a non-empty separator: the pieces between the occurrences of
  \<open>sep\<close> found by a scan from the left; \<open>s.split(sep, 1)\<close> cuts at the first
  occurrence only. (Python raises \<open>ValueError\<close> for an empty separator; the program
  passes the literals \<open>"  "\<close> and \<open>"Your models:"\<close>.)
\<close>

function split_from :: "pystr \<Rightarrow> pystr \<Rightarrow> pystr \<Rightarrow> pystr list" where
  "split_from cur s sep =
     (if sep = [] \<or> s = [] then [rev cur @ s]
      else if py_startswith s sep then rev cur # split_from [] (drop (length sep) s) sep
      else split_from (hd s # cur) (tl s) sep)"
  by pat_completeness auto
termination
  by (relation "measure (\<lambda>(cur, s, sep). length s)") auto

declare split_from.simps [simp del]

definition py_split :: "pystr \<Rightarrow> pystr \<Rightarrow> pystr list" where
  "py_split s sep = split_from [] s sep"

fun split1_from :: "pystr \<Rightarrow> pystr \<Rightarrow> pystr \<Rightarrow> pystr list" where
  "split1_from cur [] sep = [rev cur]"
| "split1_from cur (c # s) sep =
     (if py_startswith (c # s) sep then [rev cur, drop (length sep) (c # s)]
      else split1_from (c # cur) s sep)"

definition py_split1 :: "pystr \<Rightarrow> pystr \<Rightarrow> pystr list" where
  "py_split1 s sep = split1_from [] s sep"

text \<open>\<open>sep.join(parts)\<close>\<close>

fun py_join :: "pystr \<Rightarrow> pystr list \<Rightarrow> pystr" where
  "py_join sep [] = []"
| "py_join sep [x] = x"
| "py_join sep (x # y # ys) = x @ sep @ py_join sep (y # ys)"

text \<open>\<open>str(n)\<close> for a natural number: its decimal digits.\<close>

fun py_str_nat :: "nat \<Rightarrow> pystr" where
  "py_str_nat n = (if n < 10 then [48 + n] else py_str_nat (n div 10) @ [48 + n mod 10])"

declare py_str_nat.simps [simp del]

text \<open>
  The exceptions the program can meet. \<open>RequestException\<close> stands for the classes of
  \<open>requests.exceptions\<close>, which one handler of the model client singles out; its
  argument is the message \<open>str(e)\<close>.
\<close>

datatype exn =
    RequestException pystr
  | KeyError
  | IndexError
  | TypeError
  | AttributeError
  | OtherException pystr

section \<open>WebSearcher\<close>

record search_result =
  title :: pystr
  url :: pystr
  snippet :: pystr

record scraped_document = search_result +
  content :: pystr

text \<open>The dictionary \<open>search_and_scrape\<close> returns: a failure with its error, or the query with the documents.\<close>

datatype search_bundle =
    NoResults pystr
  | Results pystr "scraped_document list"

record response =
  status_code :: int
  resp_text :: pystr

text \<open>
  What lies outside the program: the result lists the two search back-ends parse out of
  the engines' pages (\<open>search_brave\<close>, \<open>search_html_fallback\<close>, each given the
  query and the number of results asked for), the outcome of \<open>session.get(url)\<close>, and
  the visible text BeautifulSoup extracts from a page once the script, style, nav, footer
  and header elements are removed. A request or the extraction may raise.
\<close>

record web =
  search_brave :: "pystr \<Rightarrow> int \<Rightarrow> search_result list"
  search_html_fallback :: "pystr \<Rightarrow> int \<Rightarrow> search_result list"
  session_get :: "pystr \<Rightarrow> exn + response"
  soup_get_text :: "pystr \<Rightarrow> exn + pystr"

definition synthetic_result :: search_result where
  "synthetic_result =
     \<lparr>title = str ''Current Date and Time Information'',
      url = str ''https://www.timeanddate.com/'',
      snippet = str ''Current time and date information. Note: For real-time data, please visit timeanddate.com directly.''\<rparr>"

text \<open>\<open>WebSearcher.search_google\<close>\<close>

definition search_google :: "web \<Rightarrow> pystr \<Rightarrow> int \<Rightarrow> search_result list" where
  "search_google w query num_results =
     (let results = search_brave w query num_results;
          results = (if results = [] then search_html_fallback w query num_results else results)
      in if results = []
            \<and> list_ex (\<lambda>keyword. py_in keyword (py_lower query))
                 (map str [''time'', ''date'', ''current'', ''today'', ''now''])
         then [synthetic_result]
         else results)"

text \<open>Lines 363 to 366 of \<open>scrape_url\<close>: the page text flattened to chunks joined by single spaces.\<close>

definition flatten_text :: "pystr \<Rightarrow> pystr" where
  "flatten_text text =
     (let lines = map py_strip (py_splitlines text);
          chunks = concat (map (\<lambda>line. map py_strip (py_split line (str ''  ''))) lines)
      in py_join (str '' '') (filter (\<lambda>chunk. chunk \<noteq> []) chunks))"

text \<open>
  \<open>WebSearcher.scrape_url\<close>. The body of the \<open>try\<close> is \<open>scrape_url_body\<close>; the
  handler \<open>except Exception\<close> turns whatever it raises into \<open>None\<close>.
\<close>

definition scrape_url_body :: "web \<Rightarrow> pystr \<Rightarrow> int \<Rightarrow> exn + pystr option" where
  "scrape_url_body w u max_chars =
     (case session_get w u of
        Inl e \<Rightarrow> Inl e
      | Inr response \<Rightarrow>
          if status_code response \<noteq> 200 then Inr None
          else (case soup_get_text w (resp_text response) of
                  Inl e \<Rightarrow> Inl e
                | Inr text \<Rightarrow>
                    (let text = flatten_text text;
                         text = (if int (length text) > max_chars
                                 then py_slice_to text max_chars @ str ''...''
                                 else text)
                     in Inr (Some text))))"

definition scrape_url :: "web \<Rightarrow> pystr \<Rightarrow> int \<Rightarrow> exn + pystr option" where
  "scrape_url w u max_chars =
     (case scrape_url_body w u max_chars of
        Inl e \<Rightarrow> Inr None
      | Inr r \<Rightarrow> Inr r)"

text \<open>
  The loop of \<open>search_and_scrape\<close>: \<open>if content\<close> holds for a scraped text that is
  neither \<open>None\<close> nor empty.
\<close>

fun scrape_results :: "web \<Rightarrow> search_result list \<Rightarrow> exn + scraped_document list" where
  "scrape_results w [] = Inr []"
| "scrape_results w (result # rest) =
     (case scrape_url w (url result) 5000 of
        Inl e \<Rightarrow> Inl e
      | Inr c \<Rightarrow>
          (let entry =
             (if c \<noteq> None \<and> c \<noteq> Some []
              then \<lparr>title = title result, url = url result, snippet = snippet result,
                    content = the c\<rparr>
              else \<lparr>title = title result, url = url result, snippet = snippet result,
                    content = snippet result\<rparr>)
           in case scrape_results w rest of
                Inl e \<Rightarrow> Inl e
              | Inr scraped_data \<Rightarrow> Inr (entry # scraped_data)))"

text \<open>\<open>WebSearcher.search_and_scrape\<close>\<close>

definition search_and_scrape :: "web \<Rightarrow> pystr \<Rightarrow> int \<Rightarrow> exn + search_bundle" where
  "search_and_scrape w query num_urls =
     (let search_results = search_google w query num_urls in
      if search_results = [] then Inr (NoResults (str ''No search results found''))
      else (case scrape_results w (py_slice_to search_results num_urls) of
              Inl e \<Rightarrow> Inl e
            | Inr scraped_data \<Rightarrow> Inr (Results query scraped_data)))"

text \<open>
  What one entry of the bundle holds, said directly: the fields of the search result, and as
  content the scraped text when there is one and it is not empty, the snippet otherwise.
\<close>

definition scraped_or_snippet :: "web \<Rightarrow> search_result \<Rightarrow> pystr" where
  "scraped_or_snippet w r =
     (case scrape_url w (url r) 5000 of
        Inr (Some t) \<Rightarrow> if t = [] then snippet r else t
      | _ \<Rightarrow> snippet r)"

definition enrich :: "web \<Rightarrow> search_result \<Rightarrow> scraped_document" where
  "enrich w r =
     \<lparr>title = title r, url = url r, snippet = snippet r, content = scraped_or_snippet w r\<rparr>"

text \<open>
  Two small webs to run the scraper on. In \<open>web_bare\<close> the first back-end finds one
  result without a snippet and every page answers 404. In \<open>web_page\<close> every page
  answers 200 with the text \<open>hello   world\<close>.
\<close>

definition web_bare :: web where
  "web_bare =
     \<lparr>search_brave = (\<lambda>query n. [\<lparr>title = str ''T'', url = str ''u'', snippet = []\<rparr>]),
      search_html_fallback = (\<lambda>query n. []),
      session_get = (\<lambda>u. Inr \<lparr>status_code = 404, resp_text = []\<rparr>),
      soup_get_text = (\<lambda>html. Inr html)\<rparr>"

definition web_page :: web where
  "web_page =
     \<lparr>search_brave = (\<lambda>query n. []),
      search_html_fallback =
        (\<lambda>query n. [\<lparr>title = str ''A'', url = str ''a'', snippet = str ''sa''\<rparr>,
                    \<lparr>title = str ''B'', url = str ''b'', snippet = str ''sb''\<rparr>,
                    \<lparr>title = str ''C'', url = str ''c'', snippet = str ''sc''\<rparr>]),
      session_get = (\<lambda>u. Inr \<lparr>status_code = 200, resp_text = str ''hello   world''\<rparr>),
      soup_get_text = (\<lambda>html. Inr html)\<rparr>"


section \<open>Prompt composition\<close>

text \<open>The role and content pair sent to the model.\<close>

record chat_message =
  role :: pystr
  message_content :: pystr

text \<open>The system prompt of \<open>SimpleChatbot.chat\<close> (lines 643 to 660).\<close>

definition system_prompt_chat :: pystr where
  "system_prompt_chat =
     str ''You are PrometheusAI, a helpful and friendly AI assistant built by SamCodeMan's LLC. '' @
     str ''You provide accurate, helpful, and conversational responses. '' @
     str ''CRITICAL INSTRUCTION: If the user asks about current time, date, or 'right now' information, '' @
     str ''you MUST use the web search results provided. DO NOT use your internal knowledge for time-sensitive queries. '' @
     str ''Your training data is outdated for current information. Always rely on web search results when provided. '' @
     str ''When web search results are provided, use them to answer the user's question accurately. '' @
     str ''Always cite your sources by mentioning the website or URL when using web information. '' @
     str ''When document content is provided (from uploaded PDFs or images), use that information to answer questions accurately. '' @
     str ''Reference the document when providing answers based on its content. '' @
     str ''If web search results or document content don't contain the exact answer, acknowledge this and provide the best answer you can. '' @
     str ''Be concise but informative, and maintain a friendly tone. '' @
     str ''Do not use emojis or special characters in your responses.''"

text \<open>The system prompt of \<open>chat_stream\<close> (lines 1111 to 1128).\<close>

definition system_prompt_stream :: pystr where
  "system_prompt_stream =
     str ''You are PrometheusAI, a helpful and friendly AI assistant built by SamCodeMan LLC. '' @
     str ''You provide accurate, helpful, and conversational responses. '' @
     str ''CRITICAL INSTRUCTION: If the user asks about current time, date, or 'right now' information, '' @
     str ''you MUST use the web search results provided. DO NOT use your internal knowledge for time-sensitive queries. '' @
     str ''Your training data is outdated for current information. Always rely on web search results when provided. '' @
     str ''When web search results are provided, use them to answer the user's question accurately. '' @
     str ''Always cite your sources by mentioning the website or URL when using web information. '' @
     str ''When document content is provided (from uploaded PDFs or images), use that information to answer questions accurately. '' @
     str ''Reference the document when providing answers based on its content. '' @
     str ''If web search results or document content don't contain the exact answer, acknowledge this and suggest the user visit the source directly. '' @
     str ''Be concise but informative, and maintain a friendly tone. '' @
     str ''Do not use emojis or special characters in your responses.''"

text \<open>
  The web-context block. Both \<open>SimpleChatbot.chat\<close> (lines 634 to 641) and
  \<open>chat_stream\<close> (lines 1101 to 1109) build it with the same statements:
  \<open>format_source\<close> is what one turn of the loop appends, \<open>add_sources\<close> is the loop
  over \<open>enumerate(results, 1)\<close>, and \<open>web_context_block\<close> gives the block together with
  the flag \<open>web_search_performed\<close> that \<open>chat_stream\<close> keeps.
\<close>

definition format_source :: "nat \<Rightarrow> scraped_document \<Rightarrow> pystr" where
  "format_source idx result =
     [10] @ str ''[Source '' @ py_str_nat idx @ str ''] '' @ title result @ [10]
     @ str ''URL: '' @ url result @ [10]
     @ str ''Content: '' @ py_slice_to (content result) 1500 @ str ''...'' @ [10]"

fun add_sources :: "nat \<Rightarrow> scraped_document list \<Rightarrow> pystr \<Rightarrow> pystr" where
  "add_sources idx [] web_context = web_context"
| "add_sources idx (result # rest) web_context =
     add_sources (Suc idx) rest (web_context @ format_source idx result)"

definition web_context_header :: pystr where
  "web_context_header = [10, 10] @ str ''Web Search Results:'' @ [10]"

definition web_context_block :: "search_bundle \<Rightarrow> pystr \<times> bool" where
  "web_context_block web_data =
     (case web_data of
        NoResults err \<Rightarrow> ([], False)
      | Results query results \<Rightarrow>
          if results \<noteq> [] then (add_sources 1 results web_context_header, True)
          else ([], False))"

text \<open>Lines 627 to 641 of \<open>SimpleChatbot.chat\<close>.\<close>

definition chat_web_context :: "web \<Rightarrow> pystr \<Rightarrow> exn + pystr" where
  "chat_web_context w user_query =
     (if should_search_web user_query then
        (let search_query = extract_search_query user_query in
         case search_and_scrape w search_query 2 of
           Inl e \<Rightarrow> Inl e
         | Inr web_data \<Rightarrow> Inr (fst (web_context_block web_data)))
      else Inr [])"

text \<open>Lines 1093 to 1109 of \<open>chat_stream\<close>: the block and \<open>web_search_performed\<close>.\<close>

definition stream_web_context :: "web \<Rightarrow> pystr \<Rightarrow> exn + pystr \<times> bool" where
  "stream_web_context w message =
     (if should_search_web message then
        (let search_query = extract_search_query message in
         case search_and_scrape w search_query 2 of
           Inl e \<Rightarrow> Inl e
         | Inr web_data \<Rightarrow> Inr (web_context_block web_data))
      else Inr ([], False))"

text \<open>
  The message list, lines 662 to 676 of \<open>SimpleChatbot.chat\<close> and 1130 to 1143 of
  \<open>chat_stream\<close>, which differ in the system prompt only. \<open>conversation_history\<close> and
  \<open>document_context\<close> may be \<open>None\<close>; \<open>if x:\<close> holds for a value that is neither
  \<open>None\<close> nor empty.
\<close>

definition user_message_of :: "pystr option \<Rightarrow> pystr \<Rightarrow> pystr \<Rightarrow> pystr" where
  "user_message_of document_context user_query web_context =
     (let user_message =
        (if document_context \<noteq> None \<and> document_context \<noteq> Some []
         then str ''[Document Content]'' @ [10] @ the document_context @ [10, 10]
              @ str ''[User Question]'' @ [10] @ user_query
         else user_query)
      in if web_context \<noteq> []
         then user_message @ web_context @ [10, 10]
              @ str ''IMPORTANT: Use ONLY the information from the web search results above to answer. Do not use outdated information.''
         else user_message)"

definition compose_messages ::
  "pystr \<Rightarrow> chat_message list option \<Rightarrow> pystr option \<Rightarrow> pystr \<Rightarrow> pystr \<Rightarrow> chat_message list" where
  "compose_messages system_prompt conversation_history document_context user_query web_context =
     (let messages = [\<lparr>role = str ''system'', message_content = system_prompt\<rparr>];
          messages =
            (if conversation_history \<noteq> None \<and> conversation_history \<noteq> Some []
             then messages @ py_slice_from (the conversation_history) (- 10)
             else messages)
      in messages @ [\<lparr>role = str ''user'',
                      message_content = user_message_of document_context user_query web_context\<rparr>])"

text \<open>
  The documents a query brings into the prompt, and the block written for a list of
  documents: nothing for no document, else the header and one numbered entry each.
\<close>

definition web_sources :: "web \<Rightarrow> pystr \<Rightarrow> scraped_document list" where
  "web_sources w user_query =
     (if should_search_web user_query then
        (case search_and_scrape w (extract_search_query user_query) 2 of
           Inr (Results query docs) \<Rightarrow> docs
         | _ \<Rightarrow> [])
      else [])"

definition render_sources :: "scraped_document list \<Rightarrow> pystr" where
  "render_sources docs =
     (if docs = [] then []
      else web_context_header
           @ concat (map (\<lambda>(idx, doc). format_source idx doc)
                       (zip [1 ..< Suc (length docs)] docs)))"

text \<open>Fifteen turns, one letter each, to run the composition on.\<close>

definition fifteen_turns :: "chat_message list" where
  "fifteen_turns =
     map (\<lambda>c. \<lparr>role = str ''user'', message_content = [c]\<rparr>) (str ''abcdefghijklmno'')"


section \<open>Python objects read from JSON\<close>

text \<open>
  What \<open>json.loads\<close> and \<open>response.json()\<close> return: \<open>None\<close>, a boolean, a number,
  a string, a list or a dictionary with string keys (read with \<open>map_of\<close>). \<open>truthy\<close>
  is Python's truth value of such an object.
\<close>

datatype json =
    JNull
  | JBool bool
  | JNum rat
  | JStr pystr
  | JArr "json list"
  | JObj "(pystr \<times> json) list"

fun truthy :: "json \<Rightarrow> bool" where
  "truthy JNull = False"
| "truthy (JBool b) = b"
| "truthy (JNum x) = (x \<noteq> 0)"
| "truthy (JStr s) = (s \<noteq> [])"
| "truthy (JArr xs) = (xs \<noteq> [])"
| "truthy (JObj kv) = (kv \<noteq> [])"

text \<open>\<open>d.get(key, default)\<close>: only a dictionary has the method.\<close>

fun py_get :: "json \<Rightarrow> pystr \<Rightarrow> json \<Rightarrow> exn + json" where
  "py_get (JObj kv) key dflt = Inr (case map_of kv key of None \<Rightarrow> dflt | Some v \<Rightarrow> v)"
| "py_get v key dflt = Inl AttributeError"

text \<open>\<open>v[key]\<close> for a string key, and \<open>v[0]\<close>.\<close>

fun py_item :: "json \<Rightarrow> pystr \<Rightarrow> exn + json" where
  "py_item (JObj kv) key = (case map_of kv key of None \<Rightarrow> Inl KeyError | Some v \<Rightarrow> Inr v)"
| "py_item v key = Inl TypeError"

fun py_item0 :: "json \<Rightarrow> exn + json" where
  "py_item0 (JArr xs) = (case xs of [] \<Rightarrow> Inl IndexError | x # rest \<Rightarrow> Inr x)"
| "py_item0 (JStr s) = (case s of [] \<Rightarrow> Inl IndexError | c # rest \<Rightarrow> Inr (JStr [c]))"
| "py_item0 (JObj kv) = Inl KeyError"
| "py_item0 v = Inl TypeError"

text \<open>Running on when nothing was raised.\<close>

definition ebind :: "exn + 'a \<Rightarrow> ('a \<Rightarrow> exn + 'b) \<Rightarrow> exn + 'b" where
  "ebind m f = (case m of Inl e \<Rightarrow> Inl e | Inr x \<Rightarrow> f x)"

text \<open>
  \<open>SimpleChatbot.clean_text\<close> on an object taken out of a JSON body: a falsy object
  gives \<open>""\<close>, a string is cleaned, and any other object has no \<open>replace\<close>.
\<close>

definition clean_text_obj :: "json \<Rightarrow> exn + pystr" where
  "clean_text_obj v =
     (if \<not> truthy v then Inr []
      else (case v of JStr s \<Rightarrow> Inr (clean_text s) | _ \<Rightarrow> Inl AttributeError))"

section \<open>SimpleChatbot: the model client\<close>

record lm_payload =
  model :: pystr
  messages :: "chat_message list"
  temperature :: rat
  max_tokens :: int
  stream :: bool

text \<open>
  A response of the model endpoint: \<open>response.ok\<close>, the outcome of
  \<open>response.json()\<close>, \<open>response.text\<close>, and for a streamed response the lines
  \<open>iter_lines\<close> hands out, followed by the exception it raises if the connection breaks
  before the end.
\<close>

record lm_response =
  ok :: bool
  json_body :: "exn + json"
  text_body :: pystr
  lines :: "pystr list"
  lines_error :: "exn option"

text \<open>
  What lies outside the client: \<open>requests.post\<close> for a payload, \<open>json.loads\<close> on a
  line (\<open>None\<close> when it raises), and \<open>str(v)\<close> of an object that is not a string.
\<close>

record lm =
  requests_post :: "lm_payload \<Rightarrow> exn + lm_response"
  json_loads :: "pystr \<Rightarrow> json option"
  py_repr :: "json \<Rightarrow> pystr"

definition py_str :: "lm \<Rightarrow> json \<Rightarrow> pystr" where
  "py_str l v = (case v of JStr s \<Rightarrow> s | _ \<Rightarrow> py_repr l v)"

definition model_error_message :: pystr where
  "model_error_message =
     str ''Sorry, the language model returned an error. Please check that LM Studio is running and a model is loaded.''"

definition connect_error_message :: pystr where
  "connect_error_message =
     str ''Sorry, I couldn't connect to the language model. Please ensure LM Studio is running at http://localhost:1200''"

text \<open>\<open>result['choices'][0]['message']['content']\<close>, then \<open>clean_text\<close>.\<close>

definition message_content_of :: "json \<Rightarrow> exn + pystr" where
  "message_content_of result =
     ebind (py_item result (str ''choices'')) (\<lambda>choices.
     ebind (py_item0 choices) (\<lambda>choice.
     ebind (py_item choice (str ''message'')) (\<lambda>message.
     ebind (py_item message (str ''content'')) clean_text_obj)))"

text \<open>Lines 503 to 508 of \<open>query_lm_studio\<close>: the text of an error body.\<close>

definition error_body_text :: "lm \<Rightarrow> lm_response \<Rightarrow> json" where
  "error_body_text l response =
     (case ebind (json_body response) (\<lambda>body_json.
           ebind (py_get body_json (str ''error'') (JObj [])) (\<lambda>err.
           ebind (py_get err (str ''message'') JNull) (\<lambda>msg.
           Inr (if truthy msg then msg else JStr (py_str l body_json))))) of
        Inl e \<Rightarrow> JStr (text_body response)
      | Inr v \<Rightarrow> v)"

text \<open>
  Lines 512 to 533: the retry with the first model the error body lists. The result is
  the text returned from inside the \<open>try\<close> (\<open>None\<close> when control goes on to line 535)
  and the value of \<open>self.model_name\<close> afterwards. Whatever is raised in the \<open>try\<close> is
  caught by \<open>except Exception\<close>.
\<close>

definition fallback_retry :: "lm \<Rightarrow> lm_payload \<Rightarrow> pystr \<Rightarrow> json \<Rightarrow> pystr option \<times> pystr" where
  "fallback_retry l payload model_name body_text =
     (let t = py_str l body_text in
      if py_in (str ''model_not_found'') (py_lower t) \<and> py_in (str ''your models:'') (py_lower t)
      then
        (let parts = py_split1 t (str ''Your models:'') in
         if length parts > 1 then
           (let candidates = filter (\<lambda>line. line \<noteq> []) (map py_strip (py_splitlines (parts ! 1))) in
            if candidates \<noteq> [] then
              (let chosen = hd candidates in
               case requests_post l (payload\<lparr>model := chosen\<rparr>) of
                 Inl e \<Rightarrow> (None, chosen)
               | Inr retry_resp \<Rightarrow>
                   if ok retry_resp then
                     (case ebind (json_body retry_resp) message_content_of of
                        Inl e \<Rightarrow> (None, chosen)
                      | Inr result \<Rightarrow> (Some result, chosen))
                   else (None, chosen))
            else (None, model_name))
         else (None, model_name))
      else (None, model_name))"

text \<open>
  \<open>SimpleChatbot.query_lm_studio\<close>: what it returns or raises, and \<open>self.model_name\<close>
  afterwards. The handler of the outer \<open>try\<close> catches \<open>RequestException\<close> only.
\<close>

definition query_lm_studio ::
  "lm \<Rightarrow> pystr \<Rightarrow> chat_message list \<Rightarrow> rat \<Rightarrow> int \<Rightarrow> (exn + pystr) \<times> pystr" where
  "query_lm_studio l model_name msgs temp max_toks =
     (let payload = \<lparr>model = model_name, messages = msgs, temperature = temp,
                      max_tokens = max_toks, stream = False\<rparr>;
          body =
            (case requests_post l payload of
               Inl e \<Rightarrow> (Inl e, model_name)
             | Inr response \<Rightarrow>
                 if \<not> ok response then
                   (case fallback_retry l payload model_name (error_body_text l response) of
                      (Some result, m) \<Rightarrow> (Inr result, m)
                    | (None, m) \<Rightarrow> (Inr model_error_message, m))
                 else (ebind (json_body response) message_content_of, model_name))
      in case body of
           (Inl (RequestException msg), m) \<Rightarrow> (Inr connect_error_message, m)
         | r \<Rightarrow> r)"

text \<open>
  \<open>SimpleChatbot.query_lm_studio_stream\<close>. \<open>chunk_of_object\<close> is the body of the
  \<open>try\<close> around one parsed line (lines 593 to 609): the chunk it yields, if any.
  \<open>process_line\<close> is one turn of the loop over the lines.
\<close>

definition chunk_of_object :: "json \<Rightarrow> exn + pystr option" where
  "chunk_of_object obj =
     ebind (case obj of JObj kv \<Rightarrow> py_get obj (str ''choices'') JNull | _ \<Rightarrow> Inr JNull)
       (\<lambda>choices.
     if truthy choices then
       ebind (py_item0 choices) (\<lambda>ch.
       ebind (py_get ch (str ''delta'') (JObj [])) (\<lambda>delta.
       if (case delta of JObj kv \<Rightarrow> map_of kv (str ''content'') \<noteq> None | _ \<Rightarrow> False) then
         ebind (py_get delta (str ''content'') JNull) (\<lambda>content.
         if truthy content then
           ebind (clean_text_obj content) (\<lambda>clean_content.
           Inr (if clean_content \<noteq> [] then Some clean_content else None))
         else Inr None)
       else
         ebind (py_get ch (str ''message'') JNull) (\<lambda>message.
         if truthy message then
           ebind (py_item ch (str ''message'')) (\<lambda>message.
           ebind (py_get message (str ''content'') JNull) (\<lambda>msg_content.
           if truthy msg_content then
             ebind (clean_text_obj msg_content) (\<lambda>clean_content.
             Inr (if clean_content \<noteq> [] then Some clean_content else None))
           else Inr None))
         else Inr None)))
     else Inr None)"

datatype line_action = Stop | Emit pystr | Skip

definition process_line :: "lm \<Rightarrow> pystr \<Rightarrow> line_action" where
  "process_line l raw_line =
     (let line = py_strip raw_line in
      if line = [] then Skip
      else
        (let line = (if py_startswith line (str ''data:'')
                     then py_strip (drop (length (str ''data:'')) line) else line) in
         if line = str ''[DONE]'' then Stop
         else (case json_loads l line of
                 None \<Rightarrow> Skip
               | Some obj \<Rightarrow>
                   (case chunk_of_object obj of
                      Inl e \<Rightarrow> Skip
                    | Inr None \<Rightarrow> Skip
                    | Inr (Some chunk) \<Rightarrow> Emit chunk))))"

text \<open>
  The loop: the chunks yielded, and the exception that ends the iteration if the lines
  run out before a \<open>[DONE]\<close> line and the connection had broken.
\<close>

fun stream_loop :: "lm \<Rightarrow> pystr list \<Rightarrow> exn option \<Rightarrow> pystr list \<times> exn option" where
  "stream_loop l [] err = ([], err)"
| "stream_loop l (raw_line # rest) err =
     (case process_line l raw_line of
        Stop \<Rightarrow> ([], None)
      | Emit chunk \<Rightarrow> (chunk # fst (stream_loop l rest err), snd (stream_loop l rest err))
      | Skip \<Rightarrow> stream_loop l rest err)"

text \<open>
  The generator as a whole: the chunks it yields, and the exception it ends with if one
  gets past its handler, which catches \<open>RequestException\<close> only.
\<close>

definition query_lm_studio_stream ::
  "lm \<Rightarrow> pystr \<Rightarrow> chat_message list \<Rightarrow> rat \<Rightarrow> int \<Rightarrow> pystr list \<times> exn option" where
  "query_lm_studio_stream l model_name msgs temp max_toks =
     (let payload = \<lparr>model = model_name, messages = msgs, temperature = temp,
                      max_tokens = max_toks, stream = True\<rparr>;
          body =
            (case requests_post l payload of
               Inl e \<Rightarrow> ([], Some e)
             | Inr resp \<Rightarrow>
                 if \<not> ok resp then
                   (let body = (case json_body resp of
                                  Inl e \<Rightarrow> JStr (text_body resp) | Inr b \<Rightarrow> b)
                    in ([str ''[ERROR] '' @ py_str l body], None))
                 else stream_loop l (lines resp) (lines_error resp))
      in case body of
           (chunks, Some (RequestException msg)) \<Rightarrow>
             (chunks @ [str ''[ERROR] Error querying LM Studio: '' @ msg], None)
         | r \<Rightarrow> r)"

text \<open>
  Two model endpoints to run the client on. \<open>lm_empty_choices\<close> answers every request
  with status 200 and the body \<open>{"choices": []}\<close>. \<open>lm_hi\<close> answers with the two
  events of a well-formed stream, separated by blank lines, and parses the first event's
  line.
\<close>

definition lm_empty_choices :: lm where
  "lm_empty_choices =
     \<lparr>requests_post = (\<lambda>payload. Inr \<lparr>ok = True,
          json_body = Inr (JObj [(str ''choices'', JArr [])]), text_body = [],
          lines = [], lines_error = None\<rparr>),
      json_loads = (\<lambda>line. None),
      py_repr = (\<lambda>v. [])\<rparr>"

definition hi_line :: pystr where
  \<open>hi_line = str ''{"choices":[{"delta":{"content":"Hi"}}]}''\<close>

definition hi_object :: json where
  "hi_object =
     JObj [(str ''choices'',
            JArr [JObj [(str ''delta'', JObj [(str ''content'', JStr (str ''Hi''))])]])]"


text \<open>
  The text a parsed line carries, said directly: the content of the delta of the first
  choice when the delta is a dictionary with a content entry, else the content of the
  message of the first choice; \<open>None\<close> when there is no such string.
\<close>

definition text_of :: "json \<Rightarrow> pystr option" where
  "text_of v = (case v of JStr s \<Rightarrow> Some s | _ \<Rightarrow> None)"

definition message_fragment :: "(pystr \<times> json) list \<Rightarrow> pystr option" where
  "message_fragment kv =
     (case map_of kv (str ''message'') of
        Some (JObj mkv) \<Rightarrow>
          (case map_of mkv (str ''content'') of Some v \<Rightarrow> text_of v | None \<Rightarrow> None)
      | _ \<Rightarrow> None)"

definition choice_fragment :: "json \<Rightarrow> pystr option" where
  "choice_fragment ch =
     (case ch of
        JObj kv \<Rightarrow>
          (case map_of kv (str ''delta'') of
             Some (JObj dkv) \<Rightarrow>
               (case map_of dkv (str ''content'') of
                  Some v \<Rightarrow> text_of v
                | None \<Rightarrow> message_fragment kv)
           | _ \<Rightarrow> message_fragment kv)
      | _ \<Rightarrow> None)"

definition fragment :: "json \<Rightarrow> pystr option" where
  "fragment obj =
     (case obj of
        JObj kv \<Rightarrow>
          (case map_of kv (str ''choices'') of
             Some (JArr (ch # rest)) \<Rightarrow> choice_fragment ch
           | _ \<Rightarrow> None)
      | _ \<Rightarrow> None)"

definition emit_clean :: "pystr option \<Rightarrow> line_action" where
  "emit_clean frag =
     (case frag of
        None \<Rightarrow> Skip
      | Some s \<Rightarrow> if clean_text s = [] then Skip else Emit (clean_text s))"


text \<open>
  \<open>lm_retry_empty\<close> refuses the model \<open>m1\<close> with an error body that names the model
  \<open>m2\<close>, and answers a request for any other model with status 200 and the body
  \<open>{"choices": []}\<close>.
\<close>

definition lm_retry_empty :: lm where
  "lm_retry_empty =
     \<lparr>requests_post = (\<lambda>payload.
          if model payload = str ''m1''
          then Inr \<lparr>ok = False,
                 json_body = Inr (JObj [(str ''error'', JObj [(str ''message'',
                     JStr (str ''model_not_found. Your models:'' @ [10] @ str ''m2''))])]),
                 text_body = [], lines = [], lines_error = None\<rparr>
          else Inr \<lparr>ok = True,
                 json_body = Inr (JObj [(str ''choices'', JArr [])]), text_body = [],
                 lines = [], lines_error = None\<rparr>),
      json_loads = (\<lambda>line. None),
      py_repr = (\<lambda>v. [])\<rparr>"


text \<open>What the loop does with the outcome of the \<open>try\<close> around a parsed line.\<close>

definition action_of :: "exn + pystr option \<Rightarrow> line_action" where
  "action_of r = (case r of Inl e \<Rightarrow> Skip | Inr None \<Rightarrow> Skip | Inr (Some chunk) \<Rightarrow> Emit chunk)"

text \<open>The text of a line once trimmed and without its \<open>data:\<close> prefix.\<close>

definition line_data :: "pystr \<Rightarrow> pystr" where
  "line_data raw_line =
     (if py_startswith (py_strip raw_line) (str ''data:'')
      then py_strip (drop 5 (py_strip raw_line))
      else py_strip raw_line)"


section \<open>The chat pipelines and their endpoints\<close>

text \<open>
  \<open>SimpleChatbot.chat\<close>: the web context, the message list and the blocking call. It
  gives what the call returns or raises, and \<open>self.model_name\<close> afterwards.
\<close>

definition bot_chat ::
  "web \<Rightarrow> lm \<Rightarrow> pystr \<Rightarrow> pystr \<Rightarrow> chat_message list option \<Rightarrow> rat \<Rightarrow> pystr option
     \<Rightarrow> (exn + pystr) \<times> pystr" where
  "bot_chat w l model_name user_query conversation_history temp document_context =
     (case chat_web_context w user_query of
        Inl e \<Rightarrow> (Inl e, model_name)
      | Inr web_context \<Rightarrow>
          query_lm_studio l model_name
            (compose_messages system_prompt_chat conversation_history document_context
               user_query web_context)
            temp (- 1))"

text \<open>
  A turn of a session is a message with its time stamp. A session holds its turns; one
  of a logged-in user also has an owner (the key \<open>user_id\<close>), a title and a time of
  update. The server keeps the two dictionaries of sessions and the chatbot's active
  model.
\<close>

record turn = chat_message +
  timestamp :: pystr

record session =
  session_id :: pystr
  owner :: "pystr option"
  session_title :: "pystr option"
  session_messages :: "turn list"
  created_at :: pystr
  updated_at :: "pystr option"

record server =
  chat_sessions :: "pystr \<Rightarrow> session option"
  anonymous_sessions :: "pystr \<Rightarrow> session option"
  active_model :: pystr

text \<open>
  The JSON body of a request: \<open>chat_id\<close>, \<open>user_id\<close> and \<open>document_context\<close> may be
  missing or \<open>null\<close>; \<open>message\<close> is a string (\<open>""\<close> when missing).
\<close>

record chat_request =
  chat_id :: "pystr option"
  message :: pystr
  user_id :: "pystr option"
  document_context :: "pystr option"

text \<open>
  What a request handler takes from outside: the identifier \<open>uuid.uuid4()\<close> gives it,
  the time \<open>datetime.now().isoformat()\<close>, and \<open>str(e)\<close> of an exception.
\<close>

record clock =
  uuid4 :: pystr
  now :: pystr
  exn_text :: "exn \<Rightarrow> pystr"

definition truthy_str :: "pystr option \<Rightarrow> bool" where
  "truthy_str x = (x \<noteq> None \<and> x \<noteq> Some [])"

definition login_reminder :: pystr where
  "login_reminder =
     str ''Note: You are chatting anonymously. Your conversation will not be saved. '' @
     str ''If you want to save your chat history, please login with Google.'' @ [10, 10]"

definition search_notice :: pystr where
  "search_notice = str ''[Searching the web...]'' @ [10, 10]"

definition title_of :: "pystr \<Rightarrow> pystr" where
  "title_of msg = py_slice_to msg 50 @ (if length msg > 50 then str ''...'' else [])"

text \<open>
  Lines 936 to 968 of \<open>chat\<close>, the same as lines 1047 to 1076 of \<open>chat_stream\<close>: the
  session of the request, made anew under a fresh identifier when the request names no
  session of its kind. The result is the refusal (status and error) or the server, the
  session's identifier and the session.
\<close>

definition open_session ::
  "clock \<Rightarrow> server \<Rightarrow> chat_request \<Rightarrow> (int \<times> pystr) + (server \<times> pystr \<times> session)" where
  "open_session c srv req =
     (let msg = py_strip (message req);
          is_logged_in = truthy_str (user_id req)
      in if is_logged_in then
           (case (if truthy_str (chat_id req) then chat_sessions srv (the (chat_id req)) else None) of
              None \<Rightarrow>
                (let s = \<lparr>session_id = uuid4 c, owner = user_id req,
                          session_title = Some (title_of msg), session_messages = [],
                          created_at = now c, updated_at = Some (now c)\<rparr>
                 in Inr (srv\<lparr>chat_sessions := (chat_sessions srv)(uuid4 c \<mapsto> s)\<rparr>, uuid4 c, s))
            | Some s \<Rightarrow>
                if owner s \<noteq> user_id req then Inl (403, str ''Access denied'')
                else Inr (srv, the (chat_id req), s))
         else
           (case (if truthy_str (chat_id req) then anonymous_sessions srv (the (chat_id req))
                  else None) of
              None \<Rightarrow>
                (let s = \<lparr>session_id = uuid4 c, owner = None, session_title = None,
                          session_messages = [], created_at = now c, updated_at = None\<rparr>
                 in Inr (srv\<lparr>anonymous_sessions := (anonymous_sessions srv)(uuid4 c \<mapsto> s)\<rparr>,
                         uuid4 c, s))
            | Some s \<Rightarrow> Inr (srv, the (chat_id req), s)))"

text \<open>Writing a session back into the dictionary it lives in.\<close>

definition put_session :: "server \<Rightarrow> bool \<Rightarrow> pystr \<Rightarrow> session \<Rightarrow> server" where
  "put_session srv is_logged_in cid s =
     (if is_logged_in then srv\<lparr>chat_sessions := (chat_sessions srv)(cid \<mapsto> s)\<rparr>
      else srv\<lparr>anonymous_sessions := (anonymous_sessions srv)(cid \<mapsto> s)\<rparr>)"

definition history_of :: "turn list \<Rightarrow> chat_message list" where
  "history_of turns =
     map (\<lambda>msg. \<lparr>role = role msg, message_content = message_content msg\<rparr>)
       (py_slice_to turns (- 1))"

text \<open>Lines 1009 to 1015 and 1175 to 1181: the bookkeeping of a logged-in session.\<close>

definition touch_session :: "clock \<Rightarrow> bool \<Rightarrow> pystr \<Rightarrow> session \<Rightarrow> session" where
  "touch_session c is_logged_in msg s =
     (if is_logged_in then
        (let s = s\<lparr>updated_at := Some (now c)\<rparr> in
         if length (session_messages s) = 2 then s\<lparr>session_title := Some (title_of msg)\<rparr>
         else s)
      else s)"

text \<open>\<open>xs if xs else None\<close> for a list.\<close>

definition or_none :: "'a list \<Rightarrow> 'a list option" where
  "or_none xs = (if xs \<noteq> [] then Some xs else None)"

text \<open>The endpoint \<open>/api/chat\<close>: the reply and the server afterwards.\<close>

datatype reply =
    Failed int pystr
  | Answered pystr pystr bool

definition chat :: "web \<Rightarrow> lm \<Rightarrow> clock \<Rightarrow> server \<Rightarrow> chat_request \<Rightarrow> reply \<times> server" where
  "chat w l c srv req =
     (let msg = py_strip (message req) in
      if msg = [] then (Failed 400 (str ''Message cannot be empty''), srv)
      else
        (case open_session c srv req of
           Inl (status, err) \<Rightarrow> (Failed status err, srv)
         | Inr (srv, cid, session) \<Rightarrow>
             (let is_logged_in = truthy_str (user_id req);
                  show_login_reminder = (\<not> is_logged_in \<and> session_messages session = []);
                  user_msg = \<lparr>role = str ''user'', message_content = msg, timestamp = now c\<rparr>;
                  session = session\<lparr>session_messages := session_messages session @ [user_msg]\<rparr>;
                  srv = put_session srv is_logged_in cid session;
                  conversation_history = history_of (session_messages session);
                  answer = bot_chat w l (active_model srv) msg (or_none conversation_history)
                             (7 / 10) (document_context req);
                  srv = srv\<lparr>active_model := snd answer\<rparr>
              in case fst answer of
                   Inl e \<Rightarrow> (Failed 500 (str ''An error occurred: '' @ exn_text c e), srv)
                 | Inr ai_response \<Rightarrow>
                     (let ai_response = (if show_login_reminder then login_reminder @ ai_response
                                         else ai_response);
                          ai_msg = \<lparr>role = str ''assistant'', message_content = ai_response,
                                    timestamp = now c\<rparr>;
                          session = session\<lparr>session_messages := session_messages session @ [ai_msg]\<rparr>;
                          session = touch_session c is_logged_in msg session
                      in (Answered cid ai_response (\<not> is_logged_in),
                          put_session srv is_logged_in cid session)))))"

text \<open>
  The endpoint \<open>/api/chat/stream\<close>. A request that gets through is answered with the
  events of \<open>generate\<close>, read by the client to the end: the deltas, then \<open>done\<close> with
  the whole text, or \<open>error\<close> when the generator of the model client ends with an
  exception.
\<close>

datatype sse_event =
    Delta pystr
  | Done pystr pystr bool
  | ErrorEvent pystr

datatype stream_reply =
    Refused int pystr
  | Events "sse_event list"

definition chat_stream ::
  "web \<Rightarrow> lm \<Rightarrow> clock \<Rightarrow> server \<Rightarrow> chat_request \<Rightarrow> stream_reply \<times> server" where
  "chat_stream w l c srv req =
     (let msg = py_strip (message req) in
      if msg = [] then (Refused 400 (str ''Message cannot be empty''), srv)
      else
        (case open_session c srv req of
           Inl (status, err) \<Rightarrow> (Refused status err, srv)
         | Inr (srv, cid, session) \<Rightarrow>
             (let is_logged_in = truthy_str (user_id req);
                  show_login_reminder = (\<not> is_logged_in \<and> session_messages session = []);
                  user_msg = \<lparr>role = str ''user'', message_content = msg, timestamp = now c\<rparr>;
                  session = session\<lparr>session_messages := session_messages session @ [user_msg]\<rparr>;
                  srv = put_session srv is_logged_in cid session;
                  conversation_history = history_of (session_messages session)
              in case stream_web_context w msg of
                   Inl e \<Rightarrow> (Refused 500 (exn_text c e), srv)
                 | Inr (web_context, web_search_performed) \<Rightarrow>
                     (let msgs = compose_messages system_prompt_stream (Some conversation_history)
                                   (document_context req) msg web_context;
                          final_text = (if show_login_reminder then login_reminder else []);
                          events = (if show_login_reminder then [Delta login_reminder] else []);
                          final_text = (if web_search_performed then final_text @ search_notice
                                        else final_text);
                          events = (if web_search_performed then events @ [Delta search_notice]
                                    else events);
                          streamed = query_lm_studio_stream l (active_model srv) msgs (7 / 10) (- 1);
                          final_text = final_text @ concat (fst streamed);
                          events = events @ map Delta (fst streamed)
                      in case snd streamed of
                           Some e \<Rightarrow> (Events (events @ [ErrorEvent (exn_text c e)]), srv)
                         | None \<Rightarrow>
                             (let ai_msg = \<lparr>role = str ''assistant'', message_content = final_text,
                                            timestamp = now c\<rparr>;
                                  session = session\<lparr>session_messages :=
                                              session_messages session @ [ai_msg]\<rparr>;
                                  session = touch_session c is_logged_in msg session
                              in (Events (events @ [Done cid final_text (\<not> is_logged_in)]),
                                  put_session srv is_logged_in cid session))))))"

text \<open>A clock, an empty server and an anonymous request to run the endpoints on.\<close>

definition clock0 :: clock where
  "clock0 = \<lparr>uuid4 = str ''id1'', now = str ''t0'', exn_text = (\<lambda>e. [])\<rparr>"

definition server0 :: server where
  "server0 = \<lparr>chat_sessions = (\<lambda>k. None), anonymous_sessions = (\<lambda>k. None),
               active_model = str ''granite''\<rparr>"

definition request0 :: chat_request where
  "request0 = \<lparr>chat_id = None, message = str ''latest cats'', user_id = None,
                document_context = None\<rparr>"

text \<open>
  \<open>lm_both\<close> answers a blocking request with the message \<open>Hello\<close> and a streaming
  request with the two events of \<open>lm_hi\<close>.
\<close>

definition lm_both :: lm where
  "lm_both =
     \<lparr>requests_post = (\<lambda>payload. Inr \<lparr>ok = True,
          json_body = Inr (JObj [(str ''choices'',
              JArr [JObj [(str ''message'', JObj [(str ''content'', JStr (str ''Hello''))])]])]),
          text_body = [],
          lines = [str ''data: '' @ hi_line, [], str ''data: [DONE]'', []],
          lines_error = None\<rparr>),
      json_loads = (\<lambda>line. if line = hi_line then Some hi_object else None),
      py_repr = (\<lambda>v. [])\<rparr>"

text \<open>
  The session a request is filed under once it is handled, and the turns before the
  request as the model sees them.
\<close>

definition stored_turns :: "server \<Rightarrow> bool \<Rightarrow> pystr \<Rightarrow> turn list option" where
  "stored_turns srv is_logged_in cid =
     map_option session_messages
       (if is_logged_in then chat_sessions srv cid else anonymous_sessions srv cid)"

definition earlier_turns :: "session \<Rightarrow> chat_message list" where
  "earlier_turns s =
     map (\<lambda>msg. \<lparr>role = role msg, message_content = message_content msg\<rparr>) (session_messages s)"

text \<open>The session \<open>request0\<close> opens on \<open>server0\<close>, and the server with it.\<close>

definition session0 :: session where
  "session0 = \<lparr>session_id = str ''id1'', owner = None, session_title = None,
                session_messages = [], created_at = str ''t0'', updated_at = None\<rparr>"

definition server1 :: server where
  "server1 = server0\<lparr>anonymous_sessions := (anonymous_sessions server0)(str ''id1'' \<mapsto> session0)\<rparr>"



section \<open>Facts about the string operations\<close>

lemma py_replace_Nil: "old \<noteq> [] \<Longrightarrow> py_replace [] old new = []"
  by (simp add: py_replace.simps)

lemma py_replace_Cons:
  "old \<noteq> [] \<Longrightarrow> py_replace (c # s) old new =
     (if py_startswith (c # s) old then new @ py_replace (drop (length old) (c # s)) old new
      else c # py_replace s old new)"
  by (subst py_replace.simps) simp

lemmas py_eval = str_def py_lower_def lower_char_def py_strip_def isspace_def
  py_replace_Nil py_replace_Cons

lemma py_replace_single_char: "py_replace s [c] [] = filter (\<lambda>x. x \<noteq> c) s"
proof (induction s)
  case Nil
  show ?case by (simp add: py_replace.simps)
next
  case (Cons a s)
  show ?case
  proof (cases "a = c")
    case True
    then show ?thesis using Cons by (subst py_replace.simps) simp
  next
    case False
    then show ?thesis using Cons by (subst py_replace.simps) simp
  qed
qed

lemma clean_text_filter:
  "clean_text x = filter (\<lambda>c. c \<noteq> 0xFFFD \<and> c < 0x10000) x"
  by (cases x) (simp_all add: clean_text_def py_replace_single_char Let_def conj_commute)


lemma lower_char_idem: "lower_char (lower_char c) = lower_char c"
  by (simp add: lower_char_def)

lemma py_lower_idem: "py_lower (py_lower s) = py_lower s"
  by (simp add: py_lower_def lower_char_idem)






section \<open>Facts about the scraper\<close>

lemma split_from_Nil: "split_from cur [] sep = [rev cur]"
  by (simp add: split_from.simps)

lemma split_from_Cons:
  "sep \<noteq> [] \<Longrightarrow> split_from cur (c # s) sep =
     (if py_startswith (c # s) sep then rev cur # split_from [] (drop (length sep) (c # s)) sep
      else split_from (c # cur) s sep)"
  by (subst split_from.simps) simp

lemmas scrape_eval = flatten_text_def py_splitlines_def py_split_def is_linebreak_def
  split_from_Nil split_from_Cons py_slice_to_def

lemma py_slice_to_nonneg: "0 \<le> n \<Longrightarrow> py_slice_to xs n = take (nat n) xs"
  by (simp add: py_slice_to_def)

lemma scrape_url_total: "\<exists>r. scrape_url w u m = Inr r"
  by (simp add: scrape_url_def split: sum.splits)

lemma scrape_results_eq: "scrape_results w rs = Inr (map (enrich w) rs)"
proof (induction rs)
  case Nil
  show ?case by simp
next
  case (Cons r rs)
  obtain c where c: "scrape_url w (url r) 5000 = Inr c"
    using scrape_url_total by blast
  show ?case
  proof (cases c)
    case None
    then show ?thesis
      using c Cons by (simp add: enrich_def scraped_or_snippet_def)
  next
    case (Some t)
    then show ?thesis
      using c Cons by (cases "t = []") (simp_all add: enrich_def scraped_or_snippet_def)
  qed
qed

lemma scrape_url_ok:
  assumes "session_get w u = Inr resp" "status_code resp = 200"
    and "soup_get_text w (resp_text resp) = Inr raw"
  shows "scrape_url w u m =
     Inr (Some (if int (length (flatten_text raw)) > m
                then py_slice_to (flatten_text raw) m @ str ''...''
                else flatten_text raw))"
  using assms by (simp add: scrape_url_def scrape_url_body_def Let_def)

lemma scrape_url_length:
  assumes "0 \<le> m" "scrape_url w u m = Inr (Some t)"
  shows "int (length t) \<le> m + 3"
proof -
  from assms(2) obtain resp raw where r: "session_get w u = Inr resp" "status_code resp = 200"
    "soup_get_text w (resp_text resp) = Inr raw"
    by (auto simp add: scrape_url_def scrape_url_body_def Let_def
        split: sum.splits if_splits)
  have t: "t = (if int (length (flatten_text raw)) > m
                then py_slice_to (flatten_text raw) m @ str ''...''
                else flatten_text raw)"
    using scrape_url_ok [OF r, of m] assms(2) by simp
  show ?thesis
  proof (cases "int (length (flatten_text raw)) > m")
    case True
    then show ?thesis
      using t assms(1) by (simp add: py_slice_to_nonneg str_def)
  next
    case False
    then show ?thesis using t by simp
  qed
qed


section \<open>Facts about the composition\<close>

lemma add_sources_concat:
  "add_sources idx docs acc =
     acc @ concat (map (\<lambda>(i, doc). format_source i doc) (zip [idx ..< idx + length docs] docs))"
proof (induction docs arbitrary: idx acc)
  case Nil
  show ?case by simp
next
  case (Cons d docs)
  have "[idx ..< idx + length (d # docs)] = idx # [Suc idx ..< Suc idx + length docs]"
    by (simp add: upt_conv_Cons del: upt_Suc)
  then show ?case
    using Cons [of "Suc idx" "acc @ format_source idx d"] by (simp del: upt_Suc)
qed

lemma add_sources_one:
  "add_sources 1 docs acc =
     acc @ concat (map (\<lambda>(i, doc). format_source i doc) (zip [1 ..< Suc (length docs)] docs))"
  using add_sources_concat [of 1 docs acc] by simp

lemma web_context_block_render:
  "web_context_block (Results query docs) = (render_sources docs, docs \<noteq> [])"
  unfolding web_context_block_def render_sources_def add_sources_one by simp

lemma search_and_scrape_two:
  "search_and_scrape w q 2 =
     (if search_google w q 2 = [] then Inr (NoResults (str ''No search results found''))
      else Inr (Results q (map (enrich w) (take 2 (search_google w q 2)))))"
  by (simp add: search_and_scrape_def Let_def scrape_results_eq py_slice_to_def)

lemma web_sources_eq:
  "web_sources w q =
     (if should_search_web q
      then map (enrich w) (take 2 (search_google w (extract_search_query q) 2))
      else [])"
  by (simp add: web_sources_def search_and_scrape_two)

lemma compose_messages_some:
  "compose_messages sp (Some h) doc q wc =
     \<lparr>role = str ''system'', message_content = sp\<rparr> # drop (length h - 10) h
       @ [\<lparr>role = str ''user'', message_content = user_message_of doc q wc\<rparr>]"
  by (cases "h = []") (simp_all add: compose_messages_def py_slice_from_def Let_def)


section \<open>Facts about the model client\<close>

lemma clean_text_obj_str: "clean_text_obj (JStr s) = Inr (clean_text s)"
  by (simp add: clean_text_obj_def clean_text_def)

lemma clean_text_obj_cases:
  "(case ebind (clean_text_obj v) (\<lambda>c. Inr (if c \<noteq> [] then Some c else None)) of
      Inl e \<Rightarrow> Skip | Inr None \<Rightarrow> Skip | Inr (Some chunk) \<Rightarrow> Emit chunk)
   = emit_clean (text_of v)"
  by (cases v) (simp_all add: clean_text_obj_def ebind_def emit_clean_def text_of_def clean_text_def)

lemma emit_content:
  "(case (if truthy v then ebind (clean_text_obj v) (\<lambda>c. Inr (if c \<noteq> [] then Some c else None))
          else Inr None) of
      Inl e \<Rightarrow> Skip | Inr None \<Rightarrow> Skip | Inr (Some chunk) \<Rightarrow> Emit chunk)
   = emit_clean (text_of v)"
  by (cases v) (simp_all add: clean_text_obj_def ebind_def emit_clean_def text_of_def clean_text_def)

lemma emit_clean_None: "emit_clean None = Skip"
  by (simp add: emit_clean_def)


section \<open>The streaming client line by line\<close>

lemma ebind_Inr: "ebind (Inr x) f = f x"
  by (simp add: ebind_def)

lemma ebind_Inl: "ebind (Inl e) f = Inl e"
  by (simp add: ebind_def)

lemma action_of_simps:
  "action_of (Inl e) = Skip" "action_of (Inr None) = Skip" "action_of (Inr (Some c)) = Emit c"
  by (simp_all add: action_of_def)

lemma emit_value:
  "action_of (if truthy v
              then ebind (clean_text_obj v) (\<lambda>c. Inr (if c \<noteq> [] then Some c else None))
              else Inr None)
   = emit_clean (text_of v)"
  by (cases v)
     (simp_all add: clean_text_obj_def ebind_def emit_clean_def text_of_def clean_text_def
        action_of_def)

lemma message_part:
  "action_of
     (ebind (py_get (JObj kv) (str ''message'') JNull) (\<lambda>message.
        if truthy message then
          ebind (py_item (JObj kv) (str ''message'')) (\<lambda>message.
          ebind (py_get message (str ''content'') JNull) (\<lambda>msg_content.
          if truthy msg_content then
            ebind (clean_text_obj msg_content) (\<lambda>clean_content.
            Inr (if clean_content \<noteq> [] then Some clean_content else None))
          else Inr None))
        else Inr None))
   = emit_clean (message_fragment kv)"
proof (cases "map_of kv (str ''message'')")
  case None
  then show ?thesis
    by (simp add: ebind_Inr action_of_simps message_fragment_def emit_clean_def)
next
  case (Some m)
  show ?thesis
  proof (cases m)
    case (JObj mkv)
    show ?thesis
    proof (cases "mkv = []")
      case True
      then show ?thesis
        using Some JObj
        by (simp add: ebind_Inr action_of_simps message_fragment_def emit_clean_def)
    next
      case False
      show ?thesis
      proof (cases "map_of mkv (str ''content'')")
        case None
        then show ?thesis
          using Some JObj False
          by (simp add: ebind_Inr action_of_simps message_fragment_def emit_clean_def)
      next
        case (Some v)
        then show ?thesis
          using \<open>map_of kv (str ''message'') = Some m\<close> JObj False
          by (simp add: ebind_Inr message_fragment_def emit_value)
      qed
    qed
  qed (use Some in \<open>simp_all add: ebind_Inr ebind_Inl action_of_simps message_fragment_def
        emit_clean_def\<close>)
qed

lemma delta_part:
  "action_of
     (ebind (py_get (JObj kv) (str ''delta'') (JObj [])) (\<lambda>delta.
        if (case delta of JObj dkv \<Rightarrow> map_of dkv (str ''content'') \<noteq> None | _ \<Rightarrow> False) then
          ebind (py_get delta (str ''content'') JNull) (\<lambda>content.
          if truthy content then
            ebind (clean_text_obj content) (\<lambda>clean_content.
            Inr (if clean_content \<noteq> [] then Some clean_content else None))
          else Inr None)
        else M))
   = (case map_of kv (str ''delta'') of
        Some (JObj dkv) \<Rightarrow>
          (case map_of dkv (str ''content'') of
             Some v \<Rightarrow> emit_clean (text_of v)
           | None \<Rightarrow> action_of M)
      | _ \<Rightarrow> action_of M)"
proof (cases "map_of kv (str ''delta'')")
  case None
  then show ?thesis
    by (simp add: ebind_Inr)
next
  case (Some d)
  show ?thesis
  proof (cases d)
    case (JObj dkv)
    show ?thesis
    proof (cases "map_of dkv (str ''content'')")
      case None
      then show ?thesis
        using Some JObj by (simp add: ebind_Inr)
    next
      case (Some v)
      then show ?thesis
        using \<open>map_of kv (str ''delta'') = Some d\<close> JObj
        by (simp add: ebind_Inr emit_value)
    qed
  qed (use Some in \<open>simp_all add: ebind_Inr\<close>)
qed

lemma choice_fragment_obj:
  "emit_clean (choice_fragment (JObj kv)) =
     (case map_of kv (str ''delta'') of
        Some (JObj dkv) \<Rightarrow>
          (case map_of dkv (str ''content'') of
             Some v \<Rightarrow> emit_clean (text_of v)
           | None \<Rightarrow> emit_clean (message_fragment kv))
      | _ \<Rightarrow> emit_clean (message_fragment kv))"
  by (simp add: choice_fragment_def split: option.splits json.splits)

lemma choice_part:
  "action_of
     (ebind (py_get ch (str ''delta'') (JObj [])) (\<lambda>delta.
        if (case delta of JObj kv \<Rightarrow> map_of kv (str ''content'') \<noteq> None | _ \<Rightarrow> False) then
          ebind (py_get delta (str ''content'') JNull) (\<lambda>content.
          if truthy content then
            ebind (clean_text_obj content) (\<lambda>clean_content.
            Inr (if clean_content \<noteq> [] then Some clean_content else None))
          else Inr None)
        else
          ebind (py_get ch (str ''message'') JNull) (\<lambda>message.
          if truthy message then
            ebind (py_item ch (str ''message'')) (\<lambda>message.
            ebind (py_get message (str ''content'') JNull) (\<lambda>msg_content.
            if truthy msg_content then
              ebind (clean_text_obj msg_content) (\<lambda>clean_content.
              Inr (if clean_content \<noteq> [] then Some clean_content else None))
            else Inr None))
          else Inr None)))
   = emit_clean (choice_fragment ch)"
proof (cases ch)
  case (JObj kv)
  show ?thesis
    unfolding JObj delta_part message_part choice_fragment_obj by (rule refl)
qed (simp_all add: ebind_Inl action_of_simps choice_fragment_def emit_clean_def)

lemma chunk_refines: "action_of (chunk_of_object obj) = emit_clean (fragment obj)"
proof (cases obj)
  case (JObj kv)
  show ?thesis
  proof (cases "map_of kv (str ''choices'')")
    case None
    then show ?thesis
      by (simp add: JObj chunk_of_object_def ebind_Inr action_of_simps fragment_def
          emit_clean_def)
  next
    case (Some choices)
    show ?thesis
    proof (cases choices)
      case (JArr xs)
      show ?thesis
      proof (cases xs)
        case Nil
        then show ?thesis
          using Some JArr
          by (simp add: JObj chunk_of_object_def ebind_Inr action_of_simps fragment_def
              emit_clean_def)
      next
        case (Cons ch rest)
        have "chunk_of_object obj =
          ebind (py_get ch (str ''delta'') (JObj [])) (\<lambda>delta.
            if (case delta of JObj kv \<Rightarrow> map_of kv (str ''content'') \<noteq> None | _ \<Rightarrow> False) then
              ebind (py_get delta (str ''content'') JNull) (\<lambda>content.
              if truthy content then
                ebind (clean_text_obj content) (\<lambda>clean_content.
                Inr (if clean_content \<noteq> [] then Some clean_content else None))
              else Inr None)
            else
              ebind (py_get ch (str ''message'') JNull) (\<lambda>message.
              if truthy message then
                ebind (py_item ch (str ''message'')) (\<lambda>message.
                ebind (py_get message (str ''content'') JNull) (\<lambda>msg_content.
                if truthy msg_content then
                  ebind (clean_text_obj msg_content) (\<lambda>clean_content.
                  Inr (if clean_content \<noteq> [] then Some clean_content else None))
                else Inr None))
              else Inr None))"
          using Some JArr Cons by (simp add: JObj chunk_of_object_def ebind_Inr)
        moreover have "fragment obj = choice_fragment ch"
          using Some JArr Cons by (simp add: JObj fragment_def)
        ultimately show ?thesis
          by (simp only: choice_part)
      qed
    next
      case (JStr s)
      then show ?thesis
        using Some
        by (cases s)
           (simp_all add: JObj chunk_of_object_def ebind_Inr ebind_Inl action_of_simps
              fragment_def emit_clean_def)
    qed (use Some in \<open>simp_all add: JObj chunk_of_object_def ebind_Inr ebind_Inl
          action_of_simps fragment_def emit_clean_def\<close>)
  qed
qed (simp_all add: chunk_of_object_def ebind_Inr action_of_simps fragment_def emit_clean_def)

lemma process_line_eq:
  "process_line l raw_line =
     (if py_strip raw_line = [] then Skip
      else if line_data raw_line = str ''[DONE]'' then Stop
      else (case json_loads l (line_data raw_line) of
              None \<Rightarrow> Skip
            | Some obj \<Rightarrow> emit_clean (fragment obj)))"
proof -
  have five: "length (str ''data:'') = 5"
    by (simp add: str_def)
  have h: "(case chunk_of_object obj of Inl e \<Rightarrow> Skip | Inr None \<Rightarrow> Skip
          | Inr (Some chunk) \<Rightarrow> Emit chunk) = emit_clean (fragment obj)" for obj
    using chunk_refines [of obj] by (simp add: action_of_def)
  show ?thesis
    unfolding process_line_def line_data_def Let_def five h by (rule refl)
qed



lemma hi_stream:
  assumes post: "requests_post l \<lparr>model = m, messages = msgs, temperature = t,
                   max_tokens = k, stream = True\<rparr> = Inr resp"
    and ok: "ok resp"
    and ls: "lines resp = [str ''data: '' @ hi_line, [], str ''data: [DONE]'', []]"
    and js: "json_loads l hi_line = Some hi_object"
  shows "query_lm_studio_stream l m msgs t k = ([str ''Hi''], None)"
proof -
  have d1: "line_data (str ''data: '' @ hi_line) = hi_line"
    by (simp add: line_data_def hi_line_def py_eval)
  have n1: "py_strip (str ''data: '' @ hi_line) \<noteq> []"
    by (simp add: hi_line_def py_eval)
  have n2: "hi_line \<noteq> str ''[DONE]''"
    by (simp add: hi_line_def str_def)
  have e1: "emit_clean (fragment hi_object) = Emit (str ''Hi'')"
    by (simp add: emit_clean_def fragment_def choice_fragment_def text_of_def hi_object_def
        clean_text_def py_eval)
  have p1: "process_line l (str ''data: '' @ hi_line) = Emit (str ''Hi'')"
    by (simp only: process_line_eq d1 n1 n2 js e1 if_False option.case)
  have p2: "process_line l [] = Skip"
    by (simp add: process_line_eq py_strip_def)
  have p3: "process_line l (str ''data: [DONE]'') = Stop"
    by (simp add: process_line_eq line_data_def py_eval)
  have "stream_loop l (lines resp) (lines_error resp) = ([str ''Hi''], None)"
    by (simp add: ls p1 p2 p3)
  then show ?thesis
    using post ok by (simp add: query_lm_studio_stream_def)
qed


section \<open>Facts about the endpoints\<close>

lemma history_of_snoc:
  "history_of (session_messages s @ [t]) = earlier_turns s"
  by (simp add: history_of_def py_slice_to_def earlier_turns_def)

lemma earlier_turns_Nil: "(earlier_turns s = []) = (session_messages s = [])"
  by (simp add: earlier_turns_def)

lemma active_model_put: "active_model (put_session srv li cid s) = active_model srv"
  by (simp add: put_session_def)

lemma stored_turns_put:
  "stored_turns (put_session srv li cid s) li cid = Some (session_messages s)"
  by (simp add: stored_turns_def put_session_def)

lemma stored_turns_model: "stored_turns (srv\<lparr>active_model := m\<rparr>) li cid = stored_turns srv li cid"
  by (simp add: stored_turns_def)

lemma put_session_model:
  "put_session (srv\<lparr>active_model := m\<rparr>) li cid s = (put_session srv li cid s)\<lparr>active_model := m\<rparr>"
  by (simp add: put_session_def)

lemma touch_session_messages:
  "session_messages (touch_session c li msg s) = session_messages s"
  by (simp add: touch_session_def Let_def)

lemma chat_answered:
  assumes ne: "py_strip (message req) \<noteq> []"
    and os: "open_session c srv req = Inr (srv1, cid, s)"
    and bc: "bot_chat w l (active_model srv1) (py_strip (message req))
               (or_none (earlier_turns s)) (7 / 10) (document_context req) = (Inr out, m')"
  shows "fst (chat w l c srv req) =
           Answered cid
             ((if \<not> truthy_str (user_id req) \<and> session_messages s = [] then login_reminder
               else []) @ out)
             (\<not> truthy_str (user_id req))"
    and "stored_turns (snd (chat w l c srv req)) (truthy_str (user_id req)) cid =
           Some (session_messages s @
             [\<lparr>role = str ''user'', message_content = py_strip (message req), timestamp = now c\<rparr>,
              \<lparr>role = str ''assistant'',
               message_content =
                 (if \<not> truthy_str (user_id req) \<and> session_messages s = [] then login_reminder
                  else []) @ out,
               timestamp = now c\<rparr>])"
proof -
  show "fst (chat w l c srv req) =
           Answered cid
             ((if \<not> truthy_str (user_id req) \<and> session_messages s = [] then login_reminder
               else []) @ out)
             (\<not> truthy_str (user_id req))"
    using ne os bc
    by (simp add: chat_def Let_def history_of_snoc active_model_put)
  show "stored_turns (snd (chat w l c srv req)) (truthy_str (user_id req)) cid =
           Some (session_messages s @
             [\<lparr>role = str ''user'', message_content = py_strip (message req), timestamp = now c\<rparr>,
              \<lparr>role = str ''assistant'',
               message_content =
                 (if \<not> truthy_str (user_id req) \<and> session_messages s = [] then login_reminder
                  else []) @ out,
               timestamp = now c\<rparr>])"
    using ne os bc
    by (simp add: chat_def Let_def history_of_snoc active_model_put put_session_model
        stored_turns_model stored_turns_put touch_session_messages)
qed

lemma chat_stream_done:
  assumes ne: "py_strip (message req) \<noteq> []"
    and os: "open_session c srv req = Inr (srv1, cid, s)"
    and wc: "stream_web_context w (py_strip (message req)) = Inr (web_context, performed)"
    and qs: "query_lm_studio_stream l (active_model srv1)
               (compose_messages system_prompt_stream (Some (earlier_turns s))
                  (document_context req) (py_strip (message req)) web_context)
               (7 / 10) (- 1) = (chunks, None)"
  shows "fst (chat_stream w l c srv req) =
           Events (map Delta
                     ((if \<not> truthy_str (user_id req) \<and> session_messages s = []
                       then [login_reminder] else [])
                      @ (if performed then [search_notice] else []) @ chunks)
                   @ [Done cid
                        ((if \<not> truthy_str (user_id req) \<and> session_messages s = []
                          then login_reminder else [])
                         @ (if performed then search_notice else []) @ concat chunks)
                        (\<not> truthy_str (user_id req))])"
    and "stored_turns (snd (chat_stream w l c srv req)) (truthy_str (user_id req)) cid =
           Some (session_messages s @
             [\<lparr>role = str ''user'', message_content = py_strip (message req), timestamp = now c\<rparr>,
              \<lparr>role = str ''assistant'',
               message_content =
                 (if \<not> truthy_str (user_id req) \<and> session_messages s = []
                  then login_reminder else [])
                 @ (if performed then search_notice else []) @ concat chunks,
               timestamp = now c\<rparr>])"
proof -
  show "fst (chat_stream w l c srv req) =
           Events (map Delta
                     ((if \<not> truthy_str (user_id req) \<and> session_messages s = []
                       then [login_reminder] else [])
                      @ (if performed then [search_notice] else []) @ chunks)
                   @ [Done cid
                        ((if \<not> truthy_str (user_id req) \<and> session_messages s = []
                          then login_reminder else [])
                         @ (if performed then search_notice else []) @ concat chunks)
                        (\<not> truthy_str (user_id req))])"
    using ne os wc qs
    by (simp add: chat_stream_def Let_def history_of_snoc active_model_put)
  show "stored_turns (snd (chat_stream w l c srv req)) (truthy_str (user_id req)) cid =
           Some (session_messages s @
             [\<lparr>role = str ''user'', message_content = py_strip (message req), timestamp = now c\<rparr>,
              \<lparr>role = str ''assistant'',
               message_content =
                 (if \<not> truthy_str (user_id req) \<and> session_messages s = []
                  then login_reminder else [])
                 @ (if performed then search_notice else []) @ concat chunks,
               timestamp = now c\<rparr>])"
    using ne os wc qs
    by (simp add: chat_stream_def Let_def history_of_snoc active_model_put
        stored_turns_put touch_session_messages)
qed

lemma chat_web_context_eq: "chat_web_context w q = Inr (render_sources (web_sources w q))"
  by (simp add: chat_web_context_def web_sources_eq search_and_scrape_two Let_def
      web_context_block_render)
     (simp add: web_context_block_def render_sources_def)

lemma stream_web_context_eq:
  "stream_web_context w q = Inr (render_sources (web_sources w q), web_sources w q \<noteq> [])"
  by (simp add: stream_web_context_def web_sources_eq search_and_scrape_two Let_def
      web_context_block_render)
     (simp add: web_context_block_def render_sources_def)

lemma request0_message: "py_strip (message request0) = str ''latest cats''"
  by (simp add: request0_def py_eval)

lemma request0_open: "open_session clock0 server0 request0 = Inr (server1, str ''id1'', session0)"
  by (simp add: open_session_def request0_def truthy_str_def clock0_def server1_def
      session0_def Let_def)

lemma lm_both_blocking: "query_lm_studio lm_both m msgs t k = (Inr (str ''Hello''), m)"
  by (simp add: query_lm_studio_def lm_both_def message_content_of_def ebind_def Let_def
      clean_text_obj_def clean_text_def py_eval)

lemma lm_both_stream: "query_lm_studio_stream lm_both m msgs t k = ([str ''Hi''], None)"
  by (rule hi_stream [where resp = "\<lparr>ok = True,
          json_body = Inr (JObj [(str ''choices'',
              JArr [JObj [(str ''message'', JObj [(str ''content'', JStr (str ''Hello''))])]])]),
          text_body = [],
          lines = [str ''data: '' @ hi_line, [], str ''data: [DONE]'', []],
          lines_error = None\<rparr>"])
     (simp_all add: lm_both_def)

lemma web_page_sources: "web_sources web_page (str ''latest cats'') \<noteq> []"
proof -
  have sh: "should_search_web (str ''latest cats'')"
    by (simp add: should_search_web_def time_date_keywords_def institution_terms_def
        search_indicators_def py_eval)
  have g: "search_google web_page query 2 \<noteq> []" for query
    by (simp add: search_google_def web_page_def)
  show ?thesis
    using sh g by (simp add: web_sources_eq)
qed

lemma bot_chat_both:
  "bot_chat w lm_both m q h t d = (Inr (str ''Hello''), m)"
  by (simp add: bot_chat_def chat_web_context_eq lm_both_blocking)



section \<open>The claims\<close>

text \<open>
  C8. For every string \<open>x\<close>, \<open>clean_text x\<close> is \<open>x\<close> without its U+FFFD characters and
  without its code points from 0x10000 on, every other character kept in its place; so the
  result holds no U+FFFD and no code point that needs a surrogate pair, cleaning is
  idempotent, and cleaning the string a, U+FFFD, b gives \<open>"ab"\<close>.
\<close>

theorem clean_text_sanitizes:
  "clean_text x = filter (\<lambda>c. c \<noteq> 0xFFFD \<and> c < 0x10000) x
   \<and> 0xFFFD \<notin> set (clean_text x)
   \<and> list_all (\<lambda>c. c < 0x10000) (clean_text x)
   \<and> clean_text (clean_text x) = clean_text x
   \<and> clean_text (str ''a'' @ [0xFFFD] @ str ''b'') = str ''ab''"
proof -
  have a: "clean_text x = filter (\<lambda>c. c \<noteq> 0xFFFD \<and> c < 0x10000) x"
    by (rule clean_text_filter)
  have b: "0xFFFD \<notin> set (clean_text x)"
    by (simp add: a)
  have c: "list_all (\<lambda>c. c < 0x10000) (clean_text x)"
    by (simp add: a list_all_iff)
  have d: "clean_text (clean_text x) = clean_text x"
    by (simp add: clean_text_filter)
  have e: "clean_text (str ''a'' @ [0xFFFD] @ str ''b'') = str ''ab''"
    by (simp add: clean_text_def py_eval)
  show ?thesis
    by (intro conjI a b c d e)
qed

theorem clean_text_sanitizes_witness:
  "clean_text [97, 0xFFFD, 0x1F600, 0xD800, 98] = [97, 0xD800, 98]
   \<and> clean_text (clean_text [97, 0xFFFD, 0x1F600, 0xD800, 98])
       = clean_text [97, 0xFFFD, 0x1F600, 0xD800, 98]"
proof -
  note t = clean_text_sanitizes [of "[97, 0xFFFD, 0x1F600, 0xD800, 98]"]
  have f: "filter (\<lambda>c. c \<noteq> 0xFFFD \<and> c < 0x10000) [97, 0xFFFD, 0x1F600, 0xD800, 98 :: nat]
           = [97, 0xD800, 98]"
    by simp
  have a: "clean_text [97, 0xFFFD, 0x1F600, 0xD800, 98] = [97, 0xD800, 98]"
    using t [THEN conjunct1] by (simp only: f)
  have b: "clean_text (clean_text [97, 0xFFFD, 0x1F600, 0xD800, 98])
       = clean_text [97, 0xFFFD, 0x1F600, 0xD800, 98]"
    by (rule t [THEN conjunct2, THEN conjunct2, THEN conjunct2, THEN conjunct1])
  show ?thesis
    by (rule conjI [OF a b])
qed

text \<open>
  C2. \<open>should_search_web\<close> is a function of the lower-cased query alone: it is true
  exactly when the lower-cased query contains a time/date keyword, an institutional
  keyword or one of the broader indicators. It holds of \<open>"What TIME is it?"\<close> and
  not of \<open>"tell me a joke"\<close>.
\<close>

theorem should_search_web_iff:
  "should_search_web q =
     ((\<exists>k \<in> set (map str [''time'', ''date'', ''today'', ''now'', ''right now'',
                           ''currently'', ''what time'']). py_in k (py_lower q))
      \<or> (\<exists>k \<in> set (map str [''university'', ''college'', ''school'', ''courses'',
                             ''programs'']). py_in k (py_lower q))
      \<or> (\<exists>k \<in> set search_indicators. py_in k (py_lower q)))
   \<and> should_search_web (py_lower q) = should_search_web q
   \<and> should_search_web (str ''What TIME is it?'')
   \<and> \<not> should_search_web (str ''tell me a joke'')"
proof -
  have a: "should_search_web (str ''What TIME is it?'')"
    by (simp add: should_search_web_def time_date_keywords_def institution_terms_def
        search_indicators_def py_eval)
  have b: "\<not> should_search_web (str ''tell me a joke'')"
    by (simp add: should_search_web_def time_date_keywords_def institution_terms_def
        search_indicators_def py_eval)
  have c: "should_search_web (py_lower q) = should_search_web q"
    by (simp add: should_search_web_def py_lower_idem)
  have d: "should_search_web q =
     ((\<exists>k \<in> set time_date_keywords. py_in k (py_lower q))
      \<or> (\<exists>k \<in> set institution_terms. py_in k (py_lower q))
      \<or> (\<exists>k \<in> set search_indicators. py_in k (py_lower q)))"
    by (auto simp add: should_search_web_def Let_def list_ex_iff)
  show ?thesis
    by (intro conjI a b c d [unfolded time_date_keywords_def institution_terms_def])
qed

theorem should_search_web_iff_witness:
  "should_search_web (str ''Latest NEWS'')
   \<and> should_search_web (py_lower (str ''Latest NEWS'')) = should_search_web (str ''Latest NEWS'')"
proof -
  have a: "should_search_web (str ''Latest NEWS'')"
    by (simp add: should_search_web_def time_date_keywords_def institution_terms_def
        search_indicators_def py_eval)
  have b: "should_search_web (py_lower (str ''Latest NEWS'')) = should_search_web (str ''Latest NEWS'')"
    by (rule should_search_web_iff [of "str ''Latest NEWS''", THEN conjunct2, THEN conjunct1])
  show ?thesis
    by (rule conjI [OF a b])
qed




text \<open>
  C1 (amended). For every query and every \<open>num_urls\<close> of at least 1,
  \<open>search_and_scrape\<close> does not raise. When the search finds nothing it returns the
  failure "No search results found". Otherwise it returns the success bundle for the
  query with one document per search result among the first \<open>num_urls\<close>, in the order
  of the ranking, so \<open>min num_urls (number of results)\<close> documents; each carries the
  title, url and snippet of its result, and as content the scraped text when the scrape
  gave a non-empty text and the snippet otherwise. The snippet, and with it the content,
  may be empty.
\<close>

theorem search_and_scrape_bundle:
  assumes "1 \<le> num_urls"
  shows "search_and_scrape w q num_urls =
           (if search_google w q num_urls = []
            then Inr (NoResults (str ''No search results found''))
            else Inr (Results q (map (enrich w)
                        (take (nat num_urls) (search_google w q num_urls)))))
         \<and> length (map (enrich w) (take (nat num_urls) (search_google w q num_urls)))
             = min (nat num_urls) (length (search_google w q num_urls))"
proof -
  have a: "search_and_scrape w q num_urls =
           (if search_google w q num_urls = []
            then Inr (NoResults (str ''No search results found''))
            else Inr (Results q (map (enrich w)
                        (take (nat num_urls) (search_google w q num_urls)))))"
    using assms
    by (simp add: search_and_scrape_def Let_def scrape_results_eq py_slice_to_nonneg)
  have b: "length (map (enrich w) (take (nat num_urls) (search_google w q num_urls)))
             = min (nat num_urls) (length (search_google w q num_urls))"
    by (simp add: min.commute)
  show ?thesis
    by (rule conjI [OF a b])
qed

theorem search_and_scrape_bundle_witness:
  "search_and_scrape web_page (str ''cats'') 2 =
     Inr (Results (str ''cats'')
       [\<lparr>title = str ''A'', url = str ''a'', snippet = str ''sa'', content = str ''hello world''\<rparr>,
        \<lparr>title = str ''B'', url = str ''b'', snippet = str ''sb'', content = str ''hello world''\<rparr>])"
proof -
  have one: "(1::int) \<le> 2" by simp
  have g: "search_google web_page (str ''cats'') 2 =
     [\<lparr>title = str ''A'', url = str ''a'', snippet = str ''sa''\<rparr>,
      \<lparr>title = str ''B'', url = str ''b'', snippet = str ''sb''\<rparr>,
      \<lparr>title = str ''C'', url = str ''c'', snippet = str ''sc''\<rparr>]"
    by (simp add: search_google_def web_page_def)
  have s: "scrape_url web_page u 5000 = Inr (Some (str ''hello world''))" for u
    by (simp add: scrape_url_def scrape_url_body_def web_page_def scrape_eval py_eval)
  have e: "enrich web_page r =
     \<lparr>title = title r, url = url r, snippet = snippet r, content = str ''hello world''\<rparr>" for r
    by (simp add: enrich_def scraped_or_snippet_def s str_def)
  show ?thesis
    using search_and_scrape_bundle [OF one, of web_page "str ''cats''", THEN conjunct1]
    by (simp add: g e)
qed

theorem search_and_scrape_empty_content:
  "search_and_scrape web_bare (str ''q'') 1 =
     Inr (Results (str ''q'')
       [\<lparr>title = str ''T'', url = str ''u'', snippet = [], content = []\<rparr>])"
  by (simp add: search_and_scrape_def search_google_def scrape_url_def scrape_url_body_def
      web_bare_def py_slice_to_def)

text \<open>
  C7 (amended). For every URL and every \<open>max_chars\<close>, \<open>scrape_url\<close> does not raise;
  when the request raises or the status is not 200 it returns \<open>None\<close>; on a page it
  can read it returns the flattened text, cut to \<open>max_chars\<close> characters and followed
  by the marker "..." whenever the text is longer than \<open>max_chars\<close>. For
  \<open>max_chars\<close> of 0 or more the returned text is at most \<open>max_chars + 3\<close> long.
\<close>

theorem scrape_url_contract:
  "(\<exists>r. scrape_url w u m = Inr r)
   \<and> (session_get w u = Inl e \<longrightarrow> scrape_url w u m = Inr None)
   \<and> (session_get w u = Inr resp \<and> status_code resp \<noteq> 200 \<longrightarrow> scrape_url w u m = Inr None)
   \<and> (session_get w u = Inr resp \<and> status_code resp = 200
        \<and> soup_get_text w (resp_text resp) = Inr raw \<longrightarrow>
        scrape_url w u m =
          Inr (Some (if int (length (flatten_text raw)) > m
                     then py_slice_to (flatten_text raw) m @ str ''...''
                     else flatten_text raw)))
   \<and> (0 \<le> m \<and> scrape_url w u m = Inr (Some t) \<longrightarrow> int (length t) \<le> m + 3)"
proof -
  have a: "\<exists>r. scrape_url w u m = Inr r"
    by (rule scrape_url_total)
  have b: "session_get w u = Inl e \<longrightarrow> scrape_url w u m = Inr None"
    by (simp add: scrape_url_def scrape_url_body_def)
  have c: "session_get w u = Inr resp \<and> status_code resp \<noteq> 200 \<longrightarrow> scrape_url w u m = Inr None"
    by (simp add: scrape_url_def scrape_url_body_def)
  have d: "session_get w u = Inr resp \<and> status_code resp = 200
        \<and> soup_get_text w (resp_text resp) = Inr raw \<longrightarrow>
        scrape_url w u m =
          Inr (Some (if int (length (flatten_text raw)) > m
                     then py_slice_to (flatten_text raw) m @ str ''...''
                     else flatten_text raw))"
    using scrape_url_ok by blast
  have f: "0 \<le> m \<and> scrape_url w u m = Inr (Some t) \<longrightarrow> int (length t) \<le> m + 3"
    using scrape_url_length by blast
  show ?thesis
    by (intro conjI a b c d f)
qed

theorem scrape_url_contract_witness:
  "scrape_url web_page (str ''u'') 5 = Inr (Some (str ''hello...''))
   \<and> int (length (str ''hello...'')) \<le> 5 + 3
   \<and> scrape_url web_bare (str ''u'') 5 = Inr None"
proof -
  note t = scrape_url_contract [of web_page "str ''u''" 5 "RequestException []"
      "\<lparr>status_code = 200, resp_text = str ''hello   world''\<rparr>" "str ''hello   world''"
      "str ''hello...''"]
  note t' = scrape_url_contract [of web_bare "str ''u''" 5 "RequestException []"
      "\<lparr>status_code = 404, resp_text = []\<rparr>" "[]" "[]"]
  have fl: "flatten_text (str ''hello   world'') = str ''hello world''"
    by (simp add: scrape_eval py_eval)
  have pre: "session_get web_page (str ''u'') = Inr \<lparr>status_code = 200, resp_text = str ''hello   world''\<rparr>
      \<and> status_code \<lparr>status_code = 200, resp_text = str ''hello   world''\<rparr> = 200
      \<and> soup_get_text web_page (resp_text \<lparr>status_code = 200, resp_text = str ''hello   world''\<rparr>)
          = Inr (str ''hello   world'')"
    by (simp add: web_page_def)
  have a: "scrape_url web_page (str ''u'') 5 = Inr (Some (str ''hello...''))"
    unfolding t [THEN conjunct2, THEN conjunct2, THEN conjunct2, THEN conjunct1, rule_format, OF pre] fl
    by (simp add: py_slice_to_def str_def)
  have b: "int (length (str ''hello...'')) \<le> 5 + 3"
    using t [THEN conjunct2, THEN conjunct2, THEN conjunct2, THEN conjunct2, rule_format] a
    by simp
  have pre': "session_get web_bare (str ''u'') = Inr \<lparr>status_code = 404, resp_text = []\<rparr>
      \<and> status_code \<lparr>status_code = 404, resp_text = []\<rparr> \<noteq> 200"
    by (simp add: web_bare_def)
  have c: "scrape_url web_bare (str ''u'') 5 = Inr None"
    by (rule t' [THEN conjunct2, THEN conjunct2, THEN conjunct1, rule_format, OF pre'])
  show ?thesis
    by (intro conjI a b c)
qed

theorem scrape_url_negative_max_chars:
  "scrape_url web_page (str ''u'') (- 1) = Inr (Some (str ''hello worl...''))
   \<and> \<not> int (length (str ''hello worl...'')) \<le> - 1 + 3"
  by (simp add: scrape_url_def scrape_url_body_def web_page_def scrape_eval py_eval)


text \<open>
  C4. Whatever the history, the message list holds the system message, then at most 10
  history entries, then the composed user message: the entries are the last 10 of the
  history (all of it when it is shorter) in their order. With 15 turns they are the last
  10, that is the history without its first 5. Without a history the list is the system
  message and the user message. This is the list of \<open>SimpleChatbot.chat\<close> and of
  \<open>chat_stream\<close>, each with its system prompt.
\<close>

theorem compose_messages_window:
  "compose_messages sp (Some h) doc q wc =
     \<lparr>role = str ''system'', message_content = sp\<rparr> # drop (length h - 10) h
       @ [\<lparr>role = str ''user'', message_content = user_message_of doc q wc\<rparr>]
   \<and> length (drop (length h - 10) h) = min 10 (length h)
   \<and> length (compose_messages sp (Some h) doc q wc) \<le> 12
   \<and> (length h = 15 \<longrightarrow>
        compose_messages sp (Some h) doc q wc =
          \<lparr>role = str ''system'', message_content = sp\<rparr> # drop 5 h
            @ [\<lparr>role = str ''user'', message_content = user_message_of doc q wc\<rparr>])
   \<and> compose_messages sp None doc q wc =
        [\<lparr>role = str ''system'', message_content = sp\<rparr>,
         \<lparr>role = str ''user'', message_content = user_message_of doc q wc\<rparr>]"
proof -
  have a: "compose_messages sp (Some h) doc q wc =
     \<lparr>role = str ''system'', message_content = sp\<rparr> # drop (length h - 10) h
       @ [\<lparr>role = str ''user'', message_content = user_message_of doc q wc\<rparr>]"
    by (rule compose_messages_some)
  have b: "length (drop (length h - 10) h) = min 10 (length h)"
    by simp
  have c: "length (compose_messages sp (Some h) doc q wc) \<le> 12"
    by (simp add: compose_messages_some)
  have d: "length h = 15 \<longrightarrow>
        compose_messages sp (Some h) doc q wc =
          \<lparr>role = str ''system'', message_content = sp\<rparr> # drop 5 h
            @ [\<lparr>role = str ''user'', message_content = user_message_of doc q wc\<rparr>]"
    by (simp add: compose_messages_some)
  have e: "compose_messages sp None doc q wc =
        [\<lparr>role = str ''system'', message_content = sp\<rparr>,
         \<lparr>role = str ''user'', message_content = user_message_of doc q wc\<rparr>]"
    by (simp add: compose_messages_def)
  show ?thesis
    by (intro conjI a b c d e)
qed

theorem compose_messages_window_witness:
  "length fifteen_turns = 15
   \<and> compose_messages system_prompt_chat (Some fifteen_turns) None (str ''hi'') [] =
       \<lparr>role = str ''system'', message_content = system_prompt_chat\<rparr>
       # map (\<lambda>c. \<lparr>role = str ''user'', message_content = [c]\<rparr>) (str ''fghijklmno'')
       @ [\<lparr>role = str ''user'', message_content = str ''hi''\<rparr>]"
proof -
  have len: "length fifteen_turns = 15"
    by (simp add: fifteen_turns_def str_def)
  have dr: "drop 5 fifteen_turns =
      map (\<lambda>c. \<lparr>role = str ''user'', message_content = [c]\<rparr>) (str ''fghijklmno'')"
    by (simp add: fifteen_turns_def str_def)
  have um: "user_message_of None (str ''hi'') [] = str ''hi''"
    by (simp add: user_message_of_def)
  have "compose_messages system_prompt_chat (Some fifteen_turns) None (str ''hi'') [] =
       \<lparr>role = str ''system'', message_content = system_prompt_chat\<rparr> # drop 5 fifteen_turns
       @ [\<lparr>role = str ''user'', message_content = user_message_of None (str ''hi'') []\<rparr>]"
    by (rule compose_messages_window [of system_prompt_chat fifteen_turns None "str ''hi''" "[]",
          THEN conjunct2, THEN conjunct2, THEN conjunct2, THEN conjunct1, rule_format, OF len])
  then have res: "compose_messages system_prompt_chat (Some fifteen_turns) None (str ''hi'') [] =
       \<lparr>role = str ''system'', message_content = system_prompt_chat\<rparr>
       # map (\<lambda>c. \<lparr>role = str ''user'', message_content = [c]\<rparr>) (str ''fghijklmno'')
       @ [\<lparr>role = str ''user'', message_content = str ''hi''\<rparr>]"
    by (simp only: dr um)
  show ?thesis
    by (rule conjI [OF len res])
qed

text \<open>
  C9. Both pipelines call \<open>search_and_scrape\<close> with \<open>num_urls = 2\<close>: the web-context
  block of \<open>SimpleChatbot.chat\<close> and of \<open>chat_stream\<close> is the block written for the
  documents of that call, which are at most 2, so it holds at most 2 source entries,
  numbered from 1; it is empty when no search is made or nothing is found.
\<close>

theorem web_context_two_sources:
  "chat_web_context w q = Inr (render_sources (web_sources w q))
   \<and> stream_web_context w q = Inr (render_sources (web_sources w q), web_sources w q \<noteq> [])
   \<and> length (web_sources w q) \<le> 2
   \<and> web_sources w q =
       (if should_search_web q
        then map (enrich w) (take 2 (search_google w (extract_search_query q) 2))
        else [])"
proof -
  have d: "web_sources w q =
       (if should_search_web q
        then map (enrich w) (take 2 (search_google w (extract_search_query q) 2))
        else [])"
    by (rule web_sources_eq)
  have c: "length (web_sources w q) \<le> 2"
    by (simp add: web_sources_eq)
  have a: "chat_web_context w q = Inr (render_sources (web_sources w q))"
    by (simp add: chat_web_context_def web_sources_eq search_and_scrape_two Let_def
        web_context_block_render)
       (simp add: web_context_block_def render_sources_def)
  have b: "stream_web_context w q
      = Inr (render_sources (web_sources w q), web_sources w q \<noteq> [])"
    by (simp add: stream_web_context_def web_sources_eq search_and_scrape_two Let_def
        web_context_block_render)
       (simp add: web_context_block_def render_sources_def)
  show ?thesis
    by (intro conjI a b c d)
qed

theorem web_context_two_sources_witness:
  "web_sources web_page (str ''latest cats'') =
     [\<lparr>title = str ''A'', url = str ''a'', snippet = str ''sa'', content = str ''hello world''\<rparr>,
      \<lparr>title = str ''B'', url = str ''b'', snippet = str ''sb'', content = str ''hello world''\<rparr>]
   \<and> length (web_sources web_page (str ''latest cats'')) \<le> 2"
proof -
  note t = web_context_two_sources [of web_page "str ''latest cats''"]
  have sh: "should_search_web (str ''latest cats'')"
    by (simp add: should_search_web_def time_date_keywords_def institution_terms_def
        search_indicators_def py_eval)
  have g: "search_google web_page query 2 =
     [\<lparr>title = str ''A'', url = str ''a'', snippet = str ''sa''\<rparr>,
      \<lparr>title = str ''B'', url = str ''b'', snippet = str ''sb''\<rparr>,
      \<lparr>title = str ''C'', url = str ''c'', snippet = str ''sc''\<rparr>]" for query
    by (simp add: search_google_def web_page_def)
  have s: "scrape_url web_page u 5000 = Inr (Some (str ''hello world''))" for u
    by (simp add: scrape_url_def scrape_url_body_def web_page_def scrape_eval py_eval)
  have e: "enrich web_page r =
     \<lparr>title = title r, url = url r, snippet = snippet r, content = str ''hello world''\<rparr>" for r
    by (simp add: enrich_def scraped_or_snippet_def s str_def)
  have a: "web_sources web_page (str ''latest cats'') =
     [\<lparr>title = str ''A'', url = str ''a'', snippet = str ''sa'', content = str ''hello world''\<rparr>,
      \<lparr>title = str ''B'', url = str ''b'', snippet = str ''sb'', content = str ''hello world''\<rparr>]"
    unfolding t [THEN conjunct2, THEN conjunct2, THEN conjunct2]
    using sh by (simp add: g e)
  have b: "length (web_sources web_page (str ''latest cats'')) \<le> 2"
    by (rule t [THEN conjunct2, THEN conjunct2, THEN conjunct1])
  show ?thesis
    by (rule conjI [OF a b])
qed


text \<open>
  C6. The blocking call is meant to hand every failure back as one of its two fixed
  messages. It does so for a request that raises a \<open>RequestException\<close>, for an error
  status, and for a retry that fails in any way: with the endpoint \<open>lm_retry_empty\<close>
  the retry against \<open>m2\<close> gets the body \<open>{"choices": []}\<close>, the \<open>IndexError\<close> is
  caught, and the call returns the model-error message with the active model switched
  to \<open>m2\<close>. On the first response the same body is not guarded: with the endpoint
  \<open>lm_empty_choices\<close> the call raises \<open>IndexError\<close>.
\<close>

theorem query_lm_studio_malformed_body:
  "query_lm_studio lm_empty_choices m msgs t k = (Inl IndexError, m)
   \<and> query_lm_studio lm_retry_empty (str ''m1'') msgs t k = (Inr model_error_message, str ''m2'')"
proof -
  have a: "query_lm_studio lm_empty_choices m msgs t k = (Inl IndexError, m)"
    by (simp add: query_lm_studio_def lm_empty_choices_def message_content_of_def ebind_def
        Let_def)
  have b: "query_lm_studio lm_retry_empty (str ''m1'') msgs t k
      = (Inr model_error_message, str ''m2'')"
    by (simp add: query_lm_studio_def lm_retry_empty_def message_content_of_def ebind_def
        Let_def fallback_retry_def error_body_text_def py_str_def py_split1_def
        py_splitlines_def is_linebreak_def py_eval)
  show ?thesis
    by (rule conjI [OF a b])
qed





text \<open>
  C10 (amended). Take a request with a non-empty message, and the session it is filed
  under. When the request carries no \<open>user_id\<close> and the session has no turn yet, the
  answer of \<open>/api/chat\<close> is the login reminder followed by the text the chatbot
  returned, and the final text of \<open>/api/chat/stream\<close> is the login reminder, then the
  notice \<open>[Searching the web...]\<close> when a web search brought results, then the chunks
  of the model; the reminder is also the first delta streamed. In every other case (a
  later anonymous message, or a logged-in user) the texts are the same without the
  reminder. In each case this text is the content of the assistant turn appended to the
  session, after the user's turn.
\<close>

theorem login_reminder_first_anonymous:
  "(py_strip (message req) \<noteq> []
    \<and> open_session c srv req = Inr (srv1, cid, s)
    \<and> bot_chat w l (active_model srv1) (py_strip (message req))
         (or_none (earlier_turns s)) (7 / 10) (document_context req) = (Inr out, m')
    \<longrightarrow>
      fst (chat w l c srv req) =
        Answered cid
          ((if \<not> truthy_str (user_id req) \<and> session_messages s = [] then login_reminder
            else []) @ out)
          (\<not> truthy_str (user_id req))
      \<and> stored_turns (snd (chat w l c srv req)) (truthy_str (user_id req)) cid =
          Some (session_messages s @
            [\<lparr>role = str ''user'', message_content = py_strip (message req), timestamp = now c\<rparr>,
             \<lparr>role = str ''assistant'',
              message_content =
                (if \<not> truthy_str (user_id req) \<and> session_messages s = [] then login_reminder
                 else []) @ out,
              timestamp = now c\<rparr>]))
   \<and> (py_strip (message req) \<noteq> []
      \<and> open_session c srv req = Inr (srv1, cid, s)
      \<and> stream_web_context w (py_strip (message req)) = Inr (web_context, performed)
      \<and> query_lm_studio_stream l (active_model srv1)
           (compose_messages system_prompt_stream (Some (earlier_turns s))
              (document_context req) (py_strip (message req)) web_context)
           (7 / 10) (- 1) = (chunks, None)
      \<longrightarrow>
        fst (chat_stream w l c srv req) =
          Events (map Delta
                    ((if \<not> truthy_str (user_id req) \<and> session_messages s = []
                      then [login_reminder] else [])
                     @ (if performed then [search_notice] else []) @ chunks)
                  @ [Done cid
                       ((if \<not> truthy_str (user_id req) \<and> session_messages s = []
                         then login_reminder else [])
                        @ (if performed then search_notice else []) @ concat chunks)
                       (\<not> truthy_str (user_id req))])
        \<and> stored_turns (snd (chat_stream w l c srv req)) (truthy_str (user_id req)) cid =
            Some (session_messages s @
              [\<lparr>role = str ''user'', message_content = py_strip (message req), timestamp = now c\<rparr>,
               \<lparr>role = str ''assistant'',
                message_content =
                  (if \<not> truthy_str (user_id req) \<and> session_messages s = []
                   then login_reminder else [])
                  @ (if performed then search_notice else []) @ concat chunks,
                timestamp = now c\<rparr>]))"
  using chat_answered [of req c srv srv1 cid s w l out m']
    chat_stream_done [of req c srv srv1 cid s w web_context performed l chunks]
  by blast

theorem login_reminder_first_anonymous_witness:
  "fst (chat web_page lm_both clock0 server0 request0) =
     Answered (str ''id1'') (login_reminder @ str ''Hello'') True
   \<and> fst (chat_stream web_page lm_both clock0 server0 request0) =
       Events [Delta login_reminder, Delta search_notice, Delta (str ''Hi''),
               Done (str ''id1'') (login_reminder @ search_notice @ str ''Hi'') True]"
proof -
  note t = login_reminder_first_anonymous [of request0 clock0 server0 server1 "str ''id1''"
      session0 web_page lm_both "str ''Hello''" "active_model server1"
      "render_sources (web_sources web_page (str ''latest cats''))" True "[str ''Hi'']"]
  have ne: "py_strip (message request0) \<noteq> []"
    by (simp add: request0_message str_def)
  have anon: "\<not> truthy_str (user_id request0)" "session_messages session0 = []"
    by (simp_all add: request0_def truthy_str_def session0_def)
  have pre1: "py_strip (message request0) \<noteq> []
    \<and> open_session clock0 server0 request0 = Inr (server1, str ''id1'', session0)
    \<and> bot_chat web_page lm_both (active_model server1) (py_strip (message request0))
         (or_none (earlier_turns session0)) (7 / 10) (document_context request0)
       = (Inr (str ''Hello''), active_model server1)"
    using ne by (simp add: request0_open bot_chat_both)
  have pre2: "py_strip (message request0) \<noteq> []
      \<and> open_session clock0 server0 request0 = Inr (server1, str ''id1'', session0)
      \<and> stream_web_context web_page (py_strip (message request0))
          = Inr (render_sources (web_sources web_page (str ''latest cats'')), True)
      \<and> query_lm_studio_stream lm_both (active_model server1)
           (compose_messages system_prompt_stream (Some (earlier_turns session0))
              (document_context request0) (py_strip (message request0))
              (render_sources (web_sources web_page (str ''latest cats''))))
           (7 / 10) (- 1) = ([str ''Hi''], None)"
    using ne
    by (simp add: request0_open request0_message stream_web_context_eq web_page_sources
        lm_both_stream)
  have a: "fst (chat web_page lm_both clock0 server0 request0) =
     Answered (str ''id1'') (login_reminder @ str ''Hello'') True"
    using t [THEN conjunct1, rule_format, OF pre1, THEN conjunct1] anon by simp
  have b: "fst (chat_stream web_page lm_both clock0 server0 request0) =
       Events [Delta login_reminder, Delta search_notice, Delta (str ''Hi''),
               Done (str ''id1'') (login_reminder @ search_notice @ str ''Hi'') True]"
    using t [THEN conjunct2, rule_format, OF pre2, THEN conjunct1] anon by simp
  show ?thesis
    by (rule conjI [OF a b])
qed

text \<open>
  On the first anonymous message \<open>latest cats\<close>, for which the search brings results,
  the streamed text is the reminder, the search notice and the model's chunk \<open>Hi\<close>: it
  is not the model output with the reminder in front.
\<close>

theorem streamed_reminder_then_notice:
  "fst (chat_stream web_page lm_both clock0 server0 request0) =
     Events [Delta login_reminder, Delta search_notice, Delta (str ''Hi''),
             Done (str ''id1'') (login_reminder @ search_notice @ str ''Hi'') True]
   \<and> query_lm_studio_stream lm_both (str ''granite'') [] (7 / 10) (- 1) = ([str ''Hi''], None)
   \<and> login_reminder @ search_notice @ str ''Hi'' \<noteq> login_reminder @ str ''Hi''"
proof -
  have ne: "py_strip (message request0) \<noteq> []"
    by (simp add: request0_message str_def)
  have anon: "\<not> truthy_str (user_id request0)" "session_messages session0 = []"
    by (simp_all add: request0_def truthy_str_def session0_def)
  have wc: "stream_web_context web_page (py_strip (message request0))
          = Inr (render_sources (web_sources web_page (str ''latest cats'')), True)"
    by (simp add: request0_message stream_web_context_eq web_page_sources)
  have a: "fst (chat_stream web_page lm_both clock0 server0 request0) =
     Events [Delta login_reminder, Delta search_notice, Delta (str ''Hi''),
             Done (str ''id1'') (login_reminder @ search_notice @ str ''Hi'') True]"
    using chat_stream_done(1) [OF ne request0_open wc lm_both_stream] anon by simp
  have b: "query_lm_studio_stream lm_both (str ''granite'') [] (7 / 10) (- 1) = ([str ''Hi''], None)"
    by (rule lm_both_stream)
  have c: "login_reminder @ search_notice @ str ''Hi'' \<noteq> login_reminder @ str ''Hi''"
    by (simp add: search_notice_def str_def)
  show ?thesis
    by (intro conjI a b c)
qed


end
